theory Spec2Isabelle
  imports Main "HOL-Library.Sublist"
begin

section \<open>Python values, JSON documents and exceptions\<close>

text \<open>
  The program is \<^verbatim>\<open>software-team-persistent.py\<close>. Its data are strings, \<^verbatim>\<open>None\<close>, members of
  the enum \<^verbatim>\<open>ProjectStatus\<close>, lists and dicts with string keys. A dict keeps its insertion
  order, so it is an association list whose keys are distinct.

  \<^verbatim>\<open>class ProjectStatus(Enum)\<close> is a plain \<^verbatim>\<open>Enum\<close> (it does not mix in \<^verbatim>\<open>str\<close>).
\<close>

datatype ProjectStatus = NOT_STARTED | IN_PROGRESS | REVIEWING | TESTING | COMPLETED | ON_HOLD

fun enum_name :: "ProjectStatus \<Rightarrow> string" where
  "enum_name NOT_STARTED = ''NOT_STARTED''"
| "enum_name IN_PROGRESS = ''IN_PROGRESS''"
| "enum_name REVIEWING = ''REVIEWING''"
| "enum_name TESTING = ''TESTING''"
| "enum_name COMPLETED = ''COMPLETED''"
| "enum_name ON_HOLD = ''ON_HOLD''"

fun enum_value :: "ProjectStatus \<Rightarrow> string" where
  "enum_value NOT_STARTED = ''not_started''"
| "enum_value IN_PROGRESS = ''in_progress''"
| "enum_value REVIEWING = ''reviewing''"
| "enum_value TESTING = ''testing''"
| "enum_value COMPLETED = ''completed''"
| "enum_value ON_HOLD = ''on_hold''"

datatype pyval =
    PNone
  | PStr string
  | PEnum ProjectStatus
  | PList "pyval list"
  | PDict "(string \<times> pyval) list"

text \<open>
  What \<^verbatim>\<open>json.load\<close> can return and \<^verbatim>\<open>json.dump\<close> can write: a document holds no enum
  member. Numbers and booleans never occur in the data of this program and are left out.
\<close>

datatype json =
    JNull
  | JStr string
  | JArr "json list"
  | JObj "(string \<times> json) list"

text \<open>
  The exceptions that the modelled code raises. \<open>JSONTypeError\<close> is the \<^verbatim>\<open>TypeError\<close> of the
  JSON encoder, \<open>TypeError\<close> the one of a subscript, an iteration or a call with the wrong
  arguments; \<open>ServiceError\<close> is whatever the generation service raises, with its \<^verbatim>\<open>str()\<close>.
\<close>

datatype error =
    JSONTypeError
  | TypeError
  | KeyError string
  | ValueError string
  | RuntimeError string
  | JSONDecodeError
  | AttributeError
  | ServiceError string

subsection \<open>Dicts\<close>

text \<open>\<^verbatim>\<open>d[k] = v\<close>: an existing key keeps its place, a new key goes to the end.\<close>

fun dict_set :: "string \<Rightarrow> 'v \<Rightarrow> (string \<times> 'v) list \<Rightarrow> (string \<times> 'v) list" where
  "dict_set k v [] = [(k, v)]"
| "dict_set k v ((k', v') # d) = (if k' = k then (k, v) # d else (k', v') # dict_set k v d)"

text \<open>\<^verbatim>\<open>d.update(e)\<close> and the dict display \<^verbatim>\<open>{**d, **e}\<close>: the items of \<open>e\<close> are stored in order.\<close>

definition dict_update :: "(string \<times> 'v) list \<Rightarrow> (string \<times> 'v) list \<Rightarrow> (string \<times> 'v) list" where
  "dict_update d e = foldl (\<lambda>acc (k, v). dict_set k v acc) d e"

subsection \<open>\<^verbatim>\<open>repr\<close> and \<^verbatim>\<open>str\<close>\<close>

text \<open>
  \<^verbatim>\<open>repr\<close> of a string, for strings of code points below 256: single quotes unless the
  string holds a single quote and no double quote; the quote and the backslash are escaped,
  tab, newline and carriage return are written \<^verbatim>\<open>\t \n \r\<close>, and any other character that
  is not printable is written \<^verbatim>\<open>\xhh\<close>.
\<close>

definition hex_digit :: "nat \<Rightarrow> char" where
  "hex_digit n = (if n < 10 then char_of (48 + n) else char_of (87 + n))"

definition printable :: "char \<Rightarrow> bool" where
  "printable c = (let n = (of_char c :: nat) in (32 \<le> n \<and> n < 127) \<or> (161 \<le> n \<and> n \<noteq> 173))"

definition repr_char :: "char \<Rightarrow> char \<Rightarrow> string" where
  "repr_char q c =
     (if c = q \<or> c = CHR 0x5C then [CHR 0x5C, c]
      else if c = CHR 0x09 then [CHR 0x5C, CHR ''t'']
      else if c = CHR 0x0A then [CHR 0x5C, CHR ''n'']
      else if c = CHR 0x0D then [CHR 0x5C, CHR ''r'']
      else if printable c then [c]
      else [CHR 0x5C, CHR ''x'', hex_digit ((of_char c :: nat) div 16), hex_digit ((of_char c :: nat) mod 16)])"

definition py_repr_str :: "string \<Rightarrow> string" where
  "py_repr_str s =
     (let q = (if CHR 0x27 \<in> set s \<and> CHR 0x22 \<notin> set s then CHR 0x22 else CHR 0x27)
      in [q] @ concat (map (repr_char q) s) @ [q])"

fun join :: "string \<Rightarrow> string list \<Rightarrow> string" where
  "join sep [] = []"
| "join sep [x] = x"
| "join sep (x # y # ys) = x @ sep @ join sep (y # ys)"

fun py_repr :: "pyval \<Rightarrow> string" where
  "py_repr PNone = ''None''"
| "py_repr (PStr s) = py_repr_str s"
| "py_repr (PEnum e) = ''<ProjectStatus.'' @ enum_name e @ '': '' @ py_repr_str (enum_value e) @ ''>''"
| "py_repr (PList xs) = ''['' @ join '', '' (map py_repr xs) @ '']''"
| "py_repr (PDict kvs) =
     ''{'' @ join '', '' (map (\<lambda>(k, v). py_repr_str k @ '': '' @ py_repr v) kvs) @ ''}''"

text \<open>\<^verbatim>\<open>str(v)\<close>, which is also what an f-string puts in place of \<^verbatim>\<open>{v}\<close>.\<close>

fun py_str :: "pyval \<Rightarrow> string" where
  "py_str (PStr s) = s"
| "py_str (PEnum e) = ''ProjectStatus.'' @ enum_name e"
| "py_str v = py_repr v"

text \<open>
  \<^verbatim>\<open>str(e)\<close> of an exception, for the exceptions that \<^verbatim>\<open>process_message\<close> can catch. The
  text of a \<open>TypeError\<close> of a call, of an \<open>AttributeError\<close> and of a \<open>JSONDecodeError\<close>
  depends on the interpreter and on the document; none of them is raised inside
  \<^verbatim>\<open>process_message\<close>, and \<open>str_e\<close> says nothing about them.
\<close>

fun str_e :: "error \<Rightarrow> string" where
  "str_e JSONTypeError = ''Object of type ProjectStatus is not JSON serializable''"
| "str_e (KeyError k) = py_repr_str k"
| "str_e (ValueError m) = m"
| "str_e (RuntimeError m) = m"
| "str_e (ServiceError m) = m"

subsection \<open>The JSON encoder and decoder\<close>

text \<open>The first error of a sequence of results, as the first exception of a loop.\<close>

fun first_error :: "('e + 'a) list \<Rightarrow> 'e + 'a list" where
  "first_error [] = Inr []"
| "first_error (Inl e # rs) = Inl e"
| "first_error (Inr x # rs) = (case first_error rs of Inl e \<Rightarrow> Inl e | Inr xs \<Rightarrow> Inr (x # xs))"

text \<open>
  \<^verbatim>\<open>json.dumps(v)\<close> with the default encoder: an object that is not a string, \<^verbatim>\<open>None\<close>, a
  list or a dict goes to \<^verbatim>\<open>JSONEncoder.default\<close>, which raises \<^verbatim>\<open>TypeError\<close>. An enum member
  is such an object.
\<close>

fun json_dumps :: "pyval \<Rightarrow> error + json" where
  "json_dumps PNone = Inr JNull"
| "json_dumps (PStr s) = Inr (JStr s)"
| "json_dumps (PEnum e) = Inl JSONTypeError"
| "json_dumps (PList xs) =
     (case first_error (map json_dumps xs) of Inl e \<Rightarrow> Inl e | Inr js \<Rightarrow> Inr (JArr js))"
| "json_dumps (PDict kvs) =
     (case first_error (map (\<lambda>(k, v). case json_dumps v of Inl e \<Rightarrow> Inl e | Inr j \<Rightarrow> Inr (k, j)) kvs)
      of Inl e \<Rightarrow> Inl e | Inr js \<Rightarrow> Inr (JObj js))"

text \<open>\<^verbatim>\<open>json.loads\<close>: of a key that a document repeats, the last value is kept.\<close>

fun json_loads :: "json \<Rightarrow> pyval" where
  "json_loads JNull = PNone"
| "json_loads (JStr s) = PStr s"
| "json_loads (JArr js) = PList (map json_loads js)"
| "json_loads (JObj kvs) = PDict (dict_update [] (map (\<lambda>(k, j). (k, json_loads j)) kvs))"

section \<open>The world outside the program: files, clock and generation service\<close>

text \<open>
  A file is named by the directory and the name that the program formats into its path:
  \<open>StateFile p\<close> is \<^verbatim>\<open>project_states/{p}.json\<close> and \<open>MemoryFile p a\<close> is
  \<^verbatim>\<open>agent_memories/{p}/{a}.json\<close>. Files with different names are different files.

  \<^verbatim>\<open>open(path, 'w')\<close> creates or empties the file, and \<^verbatim>\<open>json.dump\<close> writes the document
  piece by piece; when the encoder raises, the file is left holding the beginning of a
  document, which is not a JSON document: \<open>Truncated\<close>.
\<close>

datatype path = StateFile string | MemoryFile string string

datatype file_content = Complete json | Truncated

text \<open>
  \<open>clock w k\<close> is the \<open>k\<close>-th reading of \<^verbatim>\<open>datetime.datetime.now().isoformat()\<close>.
  \<open>llm w k\<close> answers the \<open>k\<close>-th request to the generation service: given the role whose
  system prompt is sent, the context document and the task message (the two parts that
  \<^verbatim>\<open>_format_input\<close> puts in the human message), it is the text of the first generation, or
  the \<^verbatim>\<open>str()\<close> of the exception that the request raised.
\<close>

record world =
  files :: "path \<rightharpoonup> file_content"
  clock :: "nat \<Rightarrow> string"
  ticks :: nat
  llm :: "nat \<Rightarrow> string \<Rightarrow> json \<Rightarrow> string \<Rightarrow> string + string"
  requests :: nat

definition now :: "world \<Rightarrow> string \<times> world" where
  "now w = (clock w (ticks w), w\<lparr>ticks := Suc (ticks w)\<rparr>)"

text \<open>\<^verbatim>\<open>with open(p, 'w') as f: json.dump(v, f, indent=2)\<close>\<close>

definition json_dump_file :: "pyval \<Rightarrow> path \<Rightarrow> world \<Rightarrow> (error + unit) \<times> world" where
  "json_dump_file v p w =
     (case json_dumps v of
        Inl e \<Rightarrow> (Inl e, w\<lparr>files := (files w)(p \<mapsto> Truncated)\<rparr>)
      | Inr j \<Rightarrow> (Inr (), w\<lparr>files := (files w)(p \<mapsto> Complete j)\<rparr>))"

section \<open>Milestone and ProjectState\<close>

text \<open>
  A dataclass does not check the annotations of its fields: \<^verbatim>\<open>from_dict\<close> stores whatever
  the document holds, so a loaded \<^verbatim>\<open>status\<close> is a string, not an enum member. The fields
  are therefore Python values; \<^verbatim>\<open>milestones\<close> is a list of \<^verbatim>\<open>Milestone\<close> objects wherever
  the program builds a \<^verbatim>\<open>ProjectState\<close>. The fields \<^verbatim>\<open>id\<close>, \<^verbatim>\<open>status\<close> and \<^verbatim>\<open>created_at\<close>
  of \<^verbatim>\<open>Milestone\<close> carry the suffix \<open>_m\<close>.
\<close>

record Milestone =
  id_m :: pyval
  description :: pyval
  status_m :: pyval
  assigned_to :: pyval
  created_at_m :: pyval
  completed_at :: pyval
  feedback :: pyval

record ProjectState =
  project_id :: pyval
  name :: pyval
  requirements :: pyval
  status :: pyval
  created_at :: pyval
  updated_at :: pyval
  milestones :: "Milestone list"
  learning_points :: pyval
  team_feedback :: pyval
  current_milestone_id :: pyval

text \<open>
  \<^verbatim>\<open>dataclasses.asdict\<close> turns dataclass objects, lists and dicts into dicts and lists, and
  copies every other object: an enum member stays an enum member.
\<close>

definition asdict_Milestone :: "Milestone \<Rightarrow> pyval" where
  "asdict_Milestone m = PDict
     [(''id'', id_m m), (''description'', description m), (''status'', status_m m),
      (''assigned_to'', assigned_to m), (''created_at'', created_at_m m),
      (''completed_at'', completed_at m), (''feedback'', feedback m)]"

definition to_dict :: "ProjectState \<Rightarrow> pyval" where
  "to_dict st = PDict
     [(''project_id'', project_id st), (''name'', name st), (''requirements'', requirements st),
      (''status'', status st), (''created_at'', created_at st), (''updated_at'', updated_at st),
      (''milestones'', PList (map asdict_Milestone (milestones st))),
      (''learning_points'', learning_points st), (''team_feedback'', team_feedback st),
      (''current_milestone_id'', current_milestone_id st)]"

text \<open>
  \<^verbatim>\<open>Milestone(**m)\<close>: \<open>m\<close> must be a mapping; a key that is no field, or a missing field
  without a default, is a \<^verbatim>\<open>TypeError\<close>. \<^verbatim>\<open>__post_init__\<close> replaces a \<^verbatim>\<open>feedback\<close> of
  \<^verbatim>\<open>None\<close> by the empty list.
\<close>

definition Milestone_fields :: "string list" where
  "Milestone_fields = [''id'', ''description'', ''status'', ''assigned_to'', ''created_at'',
     ''completed_at'', ''feedback'']"

definition Milestone_init :: "pyval \<Rightarrow> error + Milestone" where
  "Milestone_init m =
     (case m of
        PDict kw \<Rightarrow>
          (if \<not> list_all (\<lambda>k. k \<in> set Milestone_fields) (map fst kw) then Inl TypeError
           else case (map_of kw ''id'', map_of kw ''description'', map_of kw ''status'',
                      map_of kw ''assigned_to'', map_of kw ''created_at'') of
             (Some i, Some d, Some s, Some a, Some c) \<Rightarrow>
               Inr \<lparr>id_m = i, description = d, status_m = s, assigned_to = a, created_at_m = c,
                    completed_at = (case map_of kw ''completed_at'' of None \<Rightarrow> PNone | Some v \<Rightarrow> v),
                    feedback = (case map_of kw ''feedback'' of
                                  None \<Rightarrow> PList [] | Some PNone \<Rightarrow> PList [] | Some v \<Rightarrow> v)\<rparr>
           | _ \<Rightarrow> Inl TypeError)
      | _ \<Rightarrow> Inl TypeError)"

text \<open>The items that \<^verbatim>\<open>for m in v\<close> visits: a dict gives its keys, a string its characters.\<close>

fun py_iter :: "pyval \<Rightarrow> error + pyval list" where
  "py_iter (PList xs) = Inr xs"
| "py_iter (PDict kvs) = Inr (map (\<lambda>(k, v). PStr k) kvs)"
| "py_iter (PStr s) = Inr (map (\<lambda>c. PStr [c]) s)"
| "py_iter PNone = Inl TypeError"
| "py_iter (PEnum e) = Inl TypeError"

definition ProjectState_fields :: "string list" where
  "ProjectState_fields = [''project_id'', ''name'', ''requirements'', ''status'', ''created_at'',
     ''updated_at'', ''milestones'', ''learning_points'', ''team_feedback'',
     ''current_milestone_id'']"

text \<open>
  \<^verbatim>\<open>cls(**data)\<close>, once \<^verbatim>\<open>data['milestones']\<close> holds the list \<open>ms\<close> of \<^verbatim>\<open>Milestone\<close> objects:
  no field of \<^verbatim>\<open>ProjectState\<close> has a default.
\<close>

definition ProjectState_init :: "(string \<times> pyval) list \<Rightarrow> Milestone list \<Rightarrow> error + ProjectState" where
  "ProjectState_init kw ms =
     (if \<not> list_all (\<lambda>k. k \<in> set ProjectState_fields) (map fst kw) then Inl TypeError
      else case (map_of kw ''project_id'', map_of kw ''name'', map_of kw ''requirements'',
                 map_of kw ''status'', map_of kw ''created_at'', map_of kw ''updated_at'',
                 map_of kw ''learning_points'', map_of kw ''team_feedback'',
                 map_of kw ''current_milestone_id'') of
        (Some p, Some n, Some r, Some s, Some c, Some u, Some l, Some t, Some cm) \<Rightarrow>
          Inr \<lparr>project_id = p, name = n, requirements = r, status = s, created_at = c,
               updated_at = u, milestones = ms, learning_points = l, team_feedback = t,
               current_milestone_id = cm\<rparr>
      | _ \<Rightarrow> Inl TypeError)"

text \<open>
  \<^verbatim>\<open>data['milestones'] = [Milestone(**m) for m in data['milestones']]; return cls(**data)\<close>
\<close>

definition from_dict :: "pyval \<Rightarrow> error + ProjectState" where
  "from_dict data =
     (case data of
        PDict kw \<Rightarrow>
          (case map_of kw ''milestones'' of
             None \<Rightarrow> Inl (KeyError ''milestones'')
           | Some v \<Rightarrow>
               (case py_iter v of
                  Inl e \<Rightarrow> Inl e
                | Inr items \<Rightarrow>
                    (case first_error (map Milestone_init items) of
                       Inl e \<Rightarrow> Inl e
                     | Inr ms \<Rightarrow> ProjectState_init kw ms)))
      | _ \<Rightarrow> Inl TypeError)"

section \<open>ProjectStateManager\<close>

definition save_state :: "ProjectState \<Rightarrow> world \<Rightarrow> (error + unit) \<times> world" where
  "save_state st w = json_dump_file (to_dict st) (StateFile (py_str (project_id st))) w"

definition load_state :: "string \<Rightarrow> world \<Rightarrow> error + ProjectState option" where
  "load_state pid w =
     (case files w (StateFile pid) of
        None \<Rightarrow> Inr None
      | Some Truncated \<Rightarrow> Inl JSONDecodeError
      | Some (Complete j) \<Rightarrow>
          (case from_dict (json_loads j) of Inl e \<Rightarrow> Inl e | Inr st \<Rightarrow> Inr (Some st)))"

section \<open>AgentMemory\<close>

text \<open>
  \<^verbatim>\<open>self.memory\<close> is the dict that \<^verbatim>\<open>load_memory\<close> creates and \<^verbatim>\<open>save_memory\<close> writes: its
  four entries, in this order. The entry \<^verbatim>\<open>context\<close> is the field \<open>context_d\<close>.

  \<^verbatim>\<open>update_context\<close> is left out: nothing in the program calls it, and it changes in place
  the dict that earlier memory summaries share.
\<close>

record AgentMemory =
  memory_file :: path
  decisions :: "pyval list"
  learnings :: "pyval list"
  context_d :: "(string \<times> pyval) list"
  next_steps :: pyval

text \<open>\<^verbatim>\<open>AgentMemory(agent_id, project_id)\<close> when no memory file exists yet.\<close>

definition empty_memory :: "string \<Rightarrow> string \<Rightarrow> AgentMemory" where
  "empty_memory agent_id pid =
     \<lparr>memory_file = MemoryFile pid agent_id, decisions = [], learnings = [], context_d = [],
      next_steps = PList []\<rparr>"

definition memory_dict :: "AgentMemory \<Rightarrow> pyval" where
  "memory_dict m = PDict
     [(''decisions'', PList (decisions m)), (''learnings'', PList (learnings m)),
      (''context'', PDict (context_d m)), (''next_steps'', next_steps m)]"

definition save_memory :: "AgentMemory \<Rightarrow> world \<Rightarrow> (error + unit) \<times> world" where
  "save_memory m w = json_dump_file (memory_dict m) (memory_file m) w"

definition add_decision ::
  "string \<Rightarrow> pyval \<Rightarrow> AgentMemory \<Rightarrow> world \<Rightarrow> (error + unit) \<times> AgentMemory \<times> world" where
  "add_decision decision ctx m w =
     (let (ts, w1) = now w;
          m1 = m\<lparr>decisions := decisions m @
                 [PDict [(''timestamp'', PStr ts), (''decision'', PStr decision), (''context'', ctx)]]\<rparr>;
          (r, w2) = save_memory m1 w1
      in (r, m1, w2))"

definition add_learning ::
  "string \<Rightarrow> AgentMemory \<Rightarrow> world \<Rightarrow> (error + unit) \<times> AgentMemory \<times> world" where
  "add_learning learning m w =
     (let (ts, w1) = now w;
          m1 = m\<lparr>learnings := learnings m @
                 [PDict [(''timestamp'', PStr ts), (''learning'', PStr learning)]]\<rparr>;
          (r, w2) = save_memory m1 w1
      in (r, m1, w2))"

definition set_next_steps ::
  "pyval \<Rightarrow> AgentMemory \<Rightarrow> world \<Rightarrow> (error + unit) \<times> AgentMemory \<times> world" where
  "set_next_steps steps m w =
     (let m1 = m\<lparr>next_steps := steps\<rparr>;
          (r, w1) = save_memory m1 w
      in (r, m1, w1))"

text \<open>\<^verbatim>\<open>xs[-5:]\<close>: the last five items, or all of them when there are fewer.\<close>

definition last5 :: "'a list \<Rightarrow> 'a list" where
  "last5 xs = drop (length xs - 5) xs"

definition get_memory_summary :: "AgentMemory \<Rightarrow> pyval" where
  "get_memory_summary m = PDict
     [(''recent_decisions'', PList (last5 (decisions m))),
      (''key_learnings'', PList (last5 (learnings m))),
      (''current_context'', PDict (context_d m)),
      (''pending_steps'', next_steps m)]"

section \<open>SoftwareTeamAgent\<close>

text \<open>
  The agent's \<^verbatim>\<open>llm\<close> is the generation service of the world. \<^verbatim>\<open>system_prompts\<close> has one
  text per role below; the service is given the role in place of the text.
\<close>

record SoftwareTeamAgent =
  role :: string
  memory :: AgentMemory

definition roles :: "string list" where
  "roles = [''CEO'', ''CTO'', ''Tester'', ''Coder'']"

text \<open>
  The body of the \<^verbatim>\<open>try\<close> of \<^verbatim>\<open>process_message\<close>. \<^verbatim>\<open>self.system_prompts[self.role]\<close> is
  looked up first, then \<^verbatim>\<open>_format_input\<close> calls \<^verbatim>\<open>json.dumps\<close> on the full context, then
  the one request is made.
\<close>

definition process_message_try ::
  "SoftwareTeamAgent \<Rightarrow> string \<Rightarrow> (string \<times> pyval) list option \<Rightarrow> bool \<Rightarrow> world
     \<Rightarrow> (error + string) \<times> SoftwareTeamAgent \<times> world" where
  "process_message_try a message ctx save_decision w =
     (let memory_summary = get_memory_summary (memory a);
          full_context = dict_set ''memory_summary'' memory_summary
                           (case ctx of None \<Rightarrow> [] | Some c \<Rightarrow> c)
      in if role a \<notin> set roles then (Inl (KeyError (role a)), a, w)
         else case json_dumps (PDict full_context) of
           Inl e \<Rightarrow> (Inl e, a, w)
         | Inr doc \<Rightarrow>
             (let w1 = w\<lparr>requests := Suc (requests w)\<rparr>
              in case llm w (requests w) (role a) doc message of
                   Inl msg \<Rightarrow> (Inl (ServiceError msg), a, w1)
                 | Inr response_text \<Rightarrow>
                     if save_decision then
                       (case add_decision response_text (PDict full_context) (memory a) w1 of
                          (Inl e, m1, w2) \<Rightarrow> (Inl e, a\<lparr>memory := m1\<rparr>, w2)
                        | (Inr u, m1, w2) \<Rightarrow> (Inr response_text, a\<lparr>memory := m1\<rparr>, w2))
                     else (Inr response_text, a, w1)))"

text \<open>
  \<^verbatim>\<open>except Exception as e\<close>: \<^verbatim>\<open>add_learning\<close>, then \<^verbatim>\<open>raise RuntimeError\<close>. An exception of
  \<^verbatim>\<open>add_learning\<close> itself leaves the handler as it is.
\<close>

definition process_message ::
  "SoftwareTeamAgent \<Rightarrow> string \<Rightarrow> (string \<times> pyval) list option \<Rightarrow> bool \<Rightarrow> world
     \<Rightarrow> (error + string) \<times> SoftwareTeamAgent \<times> world" where
  "process_message a message ctx save_decision w =
     (case process_message_try a message ctx save_decision w of
        (Inr response_text, a1, w1) \<Rightarrow> (Inr response_text, a1, w1)
      | (Inl e, a1, w1) \<Rightarrow>
          (case add_learning (''Error encountered: '' @ str_e e) (memory a1) w1 of
             (Inl e', m2, w2) \<Rightarrow> (Inl e', a1\<lparr>memory := m2\<rparr>, w2)
           | (Inr u, m2, w2) \<Rightarrow>
               (Inl (RuntimeError (''Error in '' @ role a1 @ '' agent: '' @ str_e e)),
                a1\<lparr>memory := m2\<rparr>, w2)))"

section \<open>SoftwareTeam\<close>

text \<open>
  \<^verbatim>\<open>self.project_id\<close> is the field \<open>project_id_t\<close>. \<^verbatim>\<open>self.agents\<close> is a dict, visited in
  insertion order; \<^verbatim>\<open>self.state\<close> is \<^verbatim>\<open>None\<close> or a \<^verbatim>\<open>ProjectState\<close>.
\<close>

record SoftwareTeam =
  project_id_t :: string
  agents :: "(string \<times> SoftwareTeamAgent) list"
  state :: "ProjectState option"

text \<open>
  \<^verbatim>\<open>SoftwareTeam(project_id)\<close> when no document of the project exists: four agents with
  empty memories, in the order of the dict display, and no state.
\<close>

definition fresh_team :: "string \<Rightarrow> SoftwareTeam" where
  "fresh_team pid =
     \<lparr>project_id_t = pid,
      agents = map (\<lambda>r. (r, \<lparr>role = r, memory = empty_memory r pid\<rparr>)) roles,
      state = None\<rparr>"

text \<open>\<^verbatim>\<open>str(n)\<close> of a natural number: its decimal digits.\<close>

fun str_nat :: "nat \<Rightarrow> string" where
  "str_nat n = (if n < 10 then [char_of (48 + n)] else str_nat (n div 10) @ [char_of (48 + n mod 10)])"

declare str_nat.simps [simp del]

definition start_new_project ::
  "string \<Rightarrow> string \<Rightarrow> SoftwareTeam \<Rightarrow> world \<Rightarrow> (error + unit) \<times> SoftwareTeam \<times> world" where
  "start_new_project nm reqs team w =
     (let (timestamp, w1) = now w;
          st = \<lparr>project_id = PStr (project_id_t team), name = PStr nm, requirements = PStr reqs,
                status = PEnum NOT_STARTED, created_at = PStr timestamp,
                updated_at = PStr timestamp, milestones = [], learning_points = PList [],
                team_feedback = PDict (map (\<lambda>(agent, a). (agent, PList [])) (agents team)),
                current_milestone_id = PNone\<rparr>;
          (r, w2) = save_state st w1
      in (r, team\<lparr>state := Some st\<rparr>, w2))"

text \<open>
  \<^verbatim>\<open>for agent in self.agents.values(): await agent.process_message(...)\<close>: the first
  exception ends the loop. The agents come back with their memories as the calls left them.
\<close>

fun resume_loop ::
  "pyval \<Rightarrow> (string \<times> SoftwareTeamAgent) list \<Rightarrow> world
     \<Rightarrow> (error + unit) \<times> (string \<times> SoftwareTeamAgent) list \<times> world" where
  "resume_loop project_state [] w = (Inr (), [], w)"
| "resume_loop project_state ((key, agent) # rest) w =
     (case process_message agent ''Review project state and provide next steps.''
             (Some [(''project_state'', project_state)]) True w of
        (Inl e, agent1, w1) \<Rightarrow> (Inl e, (key, agent1) # rest, w1)
      | (Inr text, agent1, w1) \<Rightarrow>
          (case resume_loop project_state rest w1 of
             (r, rest1, w2) \<Rightarrow> (r, (key, agent1) # rest1, w2)))"

definition resume_project ::
  "SoftwareTeam \<Rightarrow> world \<Rightarrow> (error + unit) \<times> SoftwareTeam \<times> world" where
  "resume_project team w =
     (case state team of
        None \<Rightarrow> (Inl (ValueError ''No project state found. Please start a new project.''), team, w)
      | Some st \<Rightarrow>
          (case resume_loop (to_dict st) (agents team) w of
             (r, ags, w1) \<Rightarrow> (r, team\<lparr>agents := ags\<rparr>, w1)))"

text \<open>
  In \<^verbatim>\<open>process_milestone\<close> the local \<^verbatim>\<open>milestone\<close> is the object at the end of
  \<^verbatim>\<open>self.state.milestones\<close>: \<open>set_current m st\<close> is the state once that object reads \<open>m\<close>.
\<close>

definition set_current :: "Milestone \<Rightarrow> ProjectState \<Rightarrow> ProjectState" where
  "set_current m st = st\<lparr>milestones := butlast (milestones st) @ [m]\<rparr>"

text \<open>
  The \<^verbatim>\<open>for role, agent in self.agents.items()\<close> loop (the loop variable \<^verbatim>\<open>role\<close> is
  \<open>key\<close> here). It carries the agents still to visit, the state, the milestone, and
  \<^verbatim>\<open>results\<close>; the first exception ends it.

  The context of each call holds a copy of the state and of the milestone (\<^verbatim>\<open>asdict\<close> copies)
  and the dict \<^verbatim>\<open>results\<close> itself. The decision entry that an agent records is modelled
  with the context as it is when the entry is written, which is also what the memory file
  holds; that the entry in memory shares \<^verbatim>\<open>results\<close> with the later iterations is not
  modelled, and no statement below is about it.
\<close>

fun role_loop ::
  "string \<Rightarrow> (string \<times> SoftwareTeamAgent) list \<Rightarrow> ProjectState \<Rightarrow> Milestone
     \<Rightarrow> (string \<times> string) list \<Rightarrow> world
     \<Rightarrow> (error + unit) \<times> (string \<times> SoftwareTeamAgent) list \<times> ProjectState \<times> Milestone
          \<times> (string \<times> string) list \<times> world" where
  "role_loop desc [] st m results w = (Inr (), [], st, m, results, w)"
| "role_loop desc ((key, agent) # rest) st m results w =
     (let context =
            [(''project_state'', to_dict st),
             (''current_milestone'', asdict_Milestone m),
             (''previous_results'', PDict (map (\<lambda>(k, v). (k, PStr v)) results))]
      in case process_message agent (''Process milestone: '' @ desc) (Some context) True w of
           (Inl e, agent1, w1) \<Rightarrow> (Inl e, (key, agent1) # rest, st, m, results, w1)
         | (Inr result, agent1, w1) \<Rightarrow>
             (let results1 = dict_set key result results
              in case feedback m of
                   PList fb \<Rightarrow>
                     (let (ts, w2) = now w1;
                          m1 = m\<lparr>feedback := PList (fb @
                                  [PDict [(''role'', PStr key), (''feedback'', PStr result),
                                          (''timestamp'', PStr ts)]])\<rparr>
                      in case role_loop desc rest (set_current m1 st) m1 results1 w2 of
                           (r, rest1, st2, m2, results2, w3) \<Rightarrow>
                             (r, (key, agent1) # rest1, st2, m2, results2, w3))
                 | _ \<Rightarrow> (Inl AttributeError, (key, agent1) # rest, st, m, results1, w1)))"

text \<open>
  The body of the \<^verbatim>\<open>try\<close> of \<^verbatim>\<open>process_milestone\<close>: the loop, then the milestone is marked
  completed and the state is saved; an exception of that \<^verbatim>\<open>save_state\<close> is still inside the
  \<^verbatim>\<open>try\<close>.
\<close>

definition milestone_try ::
  "string \<Rightarrow> (string \<times> SoftwareTeamAgent) list \<Rightarrow> ProjectState \<Rightarrow> Milestone \<Rightarrow> world
     \<Rightarrow> (error + (string \<times> string) list) \<times> (string \<times> SoftwareTeamAgent) list
          \<times> ProjectState \<times> Milestone \<times> world" where
  "milestone_try desc ags st m w =
     (case role_loop desc ags st m [] w of
        (Inl e, ags1, st1, m1, results, w1) \<Rightarrow> (Inl e, ags1, st1, m1, w1)
      | (Inr u, ags1, st1, m1, results, w1) \<Rightarrow>
          (let m2 = m1\<lparr>status_m := PEnum COMPLETED\<rparr>;
               (ts, w2) = now w1;
               m3 = m2\<lparr>completed_at := PStr ts\<rparr>;
               st3 = set_current m3 st1
           in case save_state st3 w2 of
                (Inl e, w3) \<Rightarrow> (Inl e, ags1, st3, m3, w3)
              | (Inr u', w3) \<Rightarrow> (Inr results, ags1, st3, m3, w3)))"

text \<open>
  \<^verbatim>\<open>process_milestone\<close>. The first \<^verbatim>\<open>save_state\<close> stands before the \<^verbatim>\<open>try\<close>: its exception
  leaves the function at once. The handler marks the milestone on hold and saves; an
  exception of that \<^verbatim>\<open>save_state\<close> replaces the one being handled.
\<close>

definition process_milestone ::
  "string \<Rightarrow> SoftwareTeam \<Rightarrow> world
     \<Rightarrow> (error + (string \<times> string) list) \<times> SoftwareTeam \<times> world" where
  "process_milestone desc team w =
     (case state team of
        None \<Rightarrow> (Inl (ValueError ''No project state found''), team, w)
      | Some st0 \<Rightarrow>
          (let milestone_id = ''milestone_'' @ str_nat (length (milestones st0) + 1);
               (ts, w1) = now w;
               m0 = \<lparr>id_m = PStr milestone_id, description = PStr desc,
                     status_m = PEnum IN_PROGRESS, assigned_to = PStr ''CTO'',
                     created_at_m = PStr ts, completed_at = PNone, feedback = PList []\<rparr>;
               st1 = st0\<lparr>milestones := milestones st0 @ [m0],
                         current_milestone_id := PStr milestone_id\<rparr>
           in case save_state st1 w1 of
                (Inl e, w2) \<Rightarrow> (Inl e, team\<lparr>state := Some st1\<rparr>, w2)
              | (Inr u, w2) \<Rightarrow>
                  (case milestone_try desc (agents team) st1 m0 w2 of
                     (Inr results, ags, st2, m2, w3) \<Rightarrow>
                       (Inr results, team\<lparr>agents := ags, state := Some st2\<rparr>, w3)
                   | (Inl e, ags, st2, m2, w3) \<Rightarrow>
                       (let m3 = m2\<lparr>status_m := PEnum ON_HOLD\<rparr>;
                            st3 = set_current m3 st2
                        in case save_state st3 w3 of
                             (Inl e', w4) \<Rightarrow> (Inl e', team\<lparr>agents := ags, state := Some st3\<rparr>, w4)
                           | (Inr u', w4) \<Rightarrow> (Inl e, team\<lparr>agents := ags, state := Some st3\<rparr>, w4)))))"
section \<open>Notions used in the statements\<close>

text \<open>A value that holds an enum member somewhere: what the JSON encoder cannot write.\<close>

fun has_enum :: "pyval \<Rightarrow> bool" where
  "has_enum PNone = False"
| "has_enum (PStr s) = False"
| "has_enum (PEnum e) = True"
| "has_enum (PList xs) = list_ex has_enum xs"
| "has_enum (PDict kvs) = list_ex (\<lambda>(k, v). has_enum v) kvs"

text \<open>
  The local \<^verbatim>\<open>full_context\<close> of \<^verbatim>\<open>process_message\<close>, the entry that \<^verbatim>\<open>add_learning\<close> appends
  for an exception, and the entry that \<^verbatim>\<open>add_decision\<close> appends, each with the reading of
  the clock in the world where \<^verbatim>\<open>process_message\<close> starts.
\<close>

definition full_context :: "SoftwareTeamAgent \<Rightarrow> (string \<times> pyval) list option \<Rightarrow> pyval" where
  "full_context a ctx =
     PDict (dict_set ''memory_summary'' (get_memory_summary (memory a))
              (case ctx of None \<Rightarrow> [] | Some c \<Rightarrow> c))"

definition learning_entry :: "world \<Rightarrow> error \<Rightarrow> pyval" where
  "learning_entry w cause =
     PDict [(''timestamp'', PStr (clock w (ticks w))),
            (''learning'', PStr (''Error encountered: '' @ str_e cause))]"

definition decision_entry :: "world \<Rightarrow> string \<Rightarrow> pyval \<Rightarrow> pyval" where
  "decision_entry w response ctx =
     PDict [(''timestamp'', PStr (clock w (ticks w))), (''decision'', PStr response),
            (''context'', ctx)]"

text \<open>
  The exception that the body of the \<^verbatim>\<open>try\<close> of \<^verbatim>\<open>process_message\<close> raises before it
  reaches \<^verbatim>\<open>add_decision\<close>, if any: the missing system prompt, the encoder, the service.
\<close>

definition failure_cause ::
  "SoftwareTeamAgent \<Rightarrow> string \<Rightarrow> (string \<times> pyval) list option \<Rightarrow> world \<Rightarrow> error option" where
  "failure_cause a message ctx w =
     (if role a \<notin> set roles then Some (KeyError (role a))
      else case json_dumps (full_context a ctx) of
             Inl e \<Rightarrow> Some JSONTypeError
           | Inr doc \<Rightarrow>
               (case llm w (requests w) (role a) doc message of
                  Inl msg \<Rightarrow> Some (ServiceError msg)
                | Inr response \<Rightarrow> None))"

subsection \<open>Sequences of calls\<close>

text \<open>
  A caller makes the calls one after the other on the same team object and catches
  whatever a call raises.
\<close>

datatype call = StartNewProject string string | ResumeProject | ProcessMilestone string

fun run_call :: "call \<Rightarrow> SoftwareTeam \<times> world \<Rightarrow> SoftwareTeam \<times> world" where
  "run_call (StartNewProject nm reqs) (team, w) = snd (start_new_project nm reqs team w)"
| "run_call ResumeProject (team, w) = snd (resume_project team w)"
| "run_call (ProcessMilestone desc) (team, w) = snd (process_milestone desc team w)"

definition run_calls :: "call list \<Rightarrow> SoftwareTeam \<times> world \<Rightarrow> SoftwareTeam \<times> world" where
  "run_calls cs tw = foldl (\<lambda>tw c. run_call c tw) tw cs"

text \<open>The calls that follow the creation of a project: \<open>None\<close> resumes, \<open>Some desc\<close> processes.\<close>

fun later_call :: "string option \<Rightarrow> call" where
  "later_call None = ResumeProject"
| "later_call (Some desc) = ProcessMilestone desc"

text \<open>\<^verbatim>\<open>f"milestone_{k}"\<close>\<close>

definition milestone_name :: "nat \<Rightarrow> pyval" where
  "milestone_name k = PStr (''milestone_'' @ str_nat k)"

definition ids_by_position :: "ProjectState \<Rightarrow> bool" where
  "ids_by_position st =
     (map id_m (milestones st) = map milestone_name [1..<Suc (length (milestones st))])"

text \<open>The state without its milestones and without the reference to the current one.\<close>

definition rest_of_state :: "ProjectState \<Rightarrow> ProjectState" where
  "rest_of_state st = st\<lparr>milestones := [], current_milestone_id := PNone\<rparr>"

subsection \<open>Documents of projects\<close>

text \<open>
  A document that mirrors \<^verbatim>\<open>ProjectState\<close> field for field: an object with exactly the ten
  fields, each once, whose \<^verbatim>\<open>milestones\<close> is an array of objects with fields of \<^verbatim>\<open>Milestone\<close>,
  each once, the five without a default among them.
\<close>

definition milestone_document :: "json \<Rightarrow> bool" where
  "milestone_document j =
     (case j of
        JObj kvs \<Rightarrow>
          distinct (map fst kvs) \<and>
          list_all (\<lambda>k. k \<in> set Milestone_fields) (map fst kvs) \<and>
          list_all (\<lambda>k. k \<in> set (map fst kvs))
            [''id'', ''description'', ''status'', ''assigned_to'', ''created_at'']
      | _ \<Rightarrow> False)"

definition project_document :: "json \<Rightarrow> bool" where
  "project_document j =
     (case j of
        JObj kvs \<Rightarrow>
          distinct (map fst kvs) \<and>
          list_all (\<lambda>k. k \<in> set ProjectState_fields) (map fst kvs) \<and>
          list_all (\<lambda>k. k \<in> set (map fst kvs)) ProjectState_fields \<and>
          (case map_of kvs ''milestones'' of
             Some (JArr ms) \<Rightarrow> list_all milestone_document ms
           | _ \<Rightarrow> False)
      | _ \<Rightarrow> False)"

subsection \<open>The scenarios of the specification\<close>

text \<open>
  A generation service that always answers \<^verbatim>\<open>"ok"\<close>, and one whose request for the Tester
  raises. \<open>empty_disk\<close> is a world with no file; \<open>started\<close> is
  \<^verbatim>\<open>start_new_project("X", "reqs")\<close> on a new team there, \<open>add_login\<close> is
  \<^verbatim>\<open>process_milestone("Add login")\<close> after it. \<open>example_state\<close> is the state that
  \<^verbatim>\<open>start_new_project\<close> builds.
\<close>

definition always_ok :: "nat \<Rightarrow> string \<Rightarrow> json \<Rightarrow> string \<Rightarrow> string + string" where
  "always_ok k r doc msg = Inr ''ok''"

definition tester_fails :: "nat \<Rightarrow> string \<Rightarrow> json \<Rightarrow> string \<Rightarrow> string + string" where
  "tester_fails k r doc msg = (if r = ''Tester'' then Inl ''service unavailable'' else Inr ''ok'')"

definition empty_disk :: "(nat \<Rightarrow> string \<Rightarrow> json \<Rightarrow> string \<Rightarrow> string + string) \<Rightarrow> world" where
  "empty_disk service =
     \<lparr>files = Map.empty, clock = (\<lambda>k. ''2024-01-01T00:00:00''), ticks = 0, llm = service,
      requests = 0\<rparr>"

definition example_state :: ProjectState where
  "example_state =
     \<lparr>project_id = PStr ''X'', name = PStr ''X'', requirements = PStr ''reqs'',
      status = PEnum NOT_STARTED, created_at = PStr ''2024-01-01T00:00:00'',
      updated_at = PStr ''2024-01-01T00:00:00'', milestones = [], learning_points = PList [],
      team_feedback = PDict [(''CEO'', PList []), (''CTO'', PList []), (''Tester'', PList []),
                             (''Coder'', PList [])],
      current_milestone_id = PNone\<rparr>"

definition started ::
  "(nat \<Rightarrow> string \<Rightarrow> json \<Rightarrow> string \<Rightarrow> string + string) \<Rightarrow> (error + unit) \<times> SoftwareTeam \<times> world" where
  "started service = start_new_project ''X'' ''reqs'' (fresh_team ''X'') (empty_disk service)"

definition add_login ::
  "(nat \<Rightarrow> string \<Rightarrow> json \<Rightarrow> string \<Rightarrow> string + string)
     \<Rightarrow> (error + (string \<times> string) list) \<times> SoftwareTeam \<times> world" where
  "add_login service =
     process_milestone ''Add login'' (fst (snd (started service))) (snd (snd (started service)))"

text \<open>
  A world whose only file is the document \<open>j\<close> of project \<^verbatim>\<open>X\<close>, and a document as
  \<^verbatim>\<open>save_state\<close> is meant to write it after one milestone.
\<close>

definition disk_with :: "json \<Rightarrow> world" where
  "disk_with j = (empty_disk always_ok)\<lparr>files := [StateFile ''X'' \<mapsto> Complete j]\<rparr>"

definition example_document :: json where
  "example_document = JObj
     [(''project_id'', JStr ''X''), (''name'', JStr ''X''), (''requirements'', JStr ''reqs''),
      (''status'', JStr ''not_started''), (''created_at'', JStr ''2024-01-01T00:00:00''),
      (''updated_at'', JStr ''2024-01-01T00:00:00''),
      (''milestones'', JArr [JObj
         [(''id'', JStr ''milestone_1''), (''description'', JStr ''Add login''),
          (''status'', JStr ''in_progress''), (''assigned_to'', JStr ''CTO''),
          (''created_at'', JStr ''2024-01-01T00:00:00''), (''completed_at'', JNull),
          (''feedback'', JArr [])]]),
      (''learning_points'', JArr []),
      (''team_feedback'', JObj [(''CEO'', JArr []), (''CTO'', JArr []), (''Tester'', JArr []),
                                (''Coder'', JArr [])]),
      (''current_milestone_id'', JStr ''milestone_1'')]"

section \<open>The JSON encoder\<close>

lemma first_error_Inr_iff:
  "(\<exists>xs. first_error rs = Inr xs) \<longleftrightarrow> list_all (\<lambda>r. \<exists>x. r = Inr x) rs"
  by (induction rs rule: first_error.induct) (auto split: sum.splits)

lemma first_error_Inl_mem: "first_error rs = Inl e \<Longrightarrow> Inl e \<in> set rs"
  by (induction rs rule: first_error.induct) (auto split: sum.splits)

lemma json_dumps_error: "json_dumps v = Inl e \<Longrightarrow> e = JSONTypeError"
proof (induction v arbitrary: e)
  case (PList xs)
  then show ?case
    by (auto split: sum.splits dest!: first_error_Inl_mem)
next
  case (PDict kvs)
  then show ?case
    by (fastforce split: sum.splits prod.splits dest!: first_error_Inl_mem)
qed auto

lemma json_dumps_Inr_iff: "(\<exists>j. json_dumps v = Inr j) \<longleftrightarrow> \<not> has_enum v"
proof (induction v)
  case (PList xs)
  have "(\<exists>j. json_dumps (PList xs) = Inr j) \<longleftrightarrow> (\<exists>js. first_error (map json_dumps xs) = Inr js)"
    by (auto split: sum.splits)
  also have "\<dots> \<longleftrightarrow> list_all (\<lambda>x. \<exists>j. json_dumps x = Inr j) xs"
    by (simp add: first_error_Inr_iff list_all_iff)
  also have "\<dots> \<longleftrightarrow> \<not> list_ex has_enum xs"
    using PList by (auto simp: list_all_iff list_ex_iff)
  finally show ?case by simp
next
  case (PDict kvs)
  let ?f = "\<lambda>(k :: string, v). case json_dumps v of Inl e \<Rightarrow> Inl e | Inr j \<Rightarrow> Inr (k, j)"
  have "(\<exists>j. json_dumps (PDict kvs) = Inr j) \<longleftrightarrow> (\<exists>js. first_error (map ?f kvs) = Inr js)"
    by (auto split: sum.splits)
  also have "\<dots> \<longleftrightarrow> list_all (\<lambda>kv. \<exists>j. json_dumps (snd kv) = Inr j) kvs"
  proof -
    have "(\<exists>x. ?f kv = Inr x) \<longleftrightarrow> (\<exists>j. json_dumps (snd kv) = Inr j)" for kv :: "string \<times> pyval"
      by (cases kv; cases "json_dumps (snd kv)") auto
    then show ?thesis
      by (simp add: first_error_Inr_iff list_all_iff)
  qed
  also have "\<dots> \<longleftrightarrow> \<not> list_ex (\<lambda>(k, v). has_enum v) kvs"
    using PDict by (fastforce simp: list_all_iff list_ex_iff)
  finally show ?case by simp
qed auto

lemma json_dumps_has_enum: "has_enum v \<Longrightarrow> json_dumps v = Inl JSONTypeError"
  using json_dumps_Inr_iff [of v] json_dumps_error [of v] by (cases "json_dumps v") auto

section \<open>Saving a state\<close>

text \<open>
  \<^verbatim>\<open>save_state\<close> raises as soon as the state holds an enum member, and leaves a truncated
  document. The milestone that \<^verbatim>\<open>process_milestone\<close> appends has the status
  \<^verbatim>\<open>ProjectStatus.IN_PROGRESS\<close>, so the \<^verbatim>\<open>save_state\<close> that stands before the \<^verbatim>\<open>try\<close> always
  raises: for every team that has a state, \<^verbatim>\<open>process_milestone\<close> ends there.
\<close>

lemma has_enum_to_dict:
  "has_enum (to_dict st) \<longleftrightarrow>
     has_enum (project_id st) \<or> has_enum (name st) \<or> has_enum (requirements st) \<or>
     has_enum (status st) \<or> has_enum (created_at st) \<or> has_enum (updated_at st) \<or>
     list_ex (\<lambda>m. has_enum (asdict_Milestone m)) (milestones st) \<or>
     has_enum (learning_points st) \<or> has_enum (team_feedback st) \<or>
     has_enum (current_milestone_id st)"
  by (simp add: to_dict_def list_ex_iff)

lemma has_enum_asdict_Milestone:
  "has_enum (asdict_Milestone m) \<longleftrightarrow>
     has_enum (id_m m) \<or> has_enum (description m) \<or> has_enum (status_m m) \<or>
     has_enum (assigned_to m) \<or> has_enum (created_at_m m) \<or> has_enum (completed_at m) \<or>
     has_enum (feedback m)"
  by (simp add: asdict_Milestone_def)

lemma save_state_has_enum:
  "has_enum (to_dict st) \<Longrightarrow>
     save_state st w = (Inl JSONTypeError, w\<lparr>files := (files w)(StateFile (py_str (project_id st)) \<mapsto> Truncated)\<rparr>)"
  by (simp add: save_state_def json_dump_file_def json_dumps_has_enum)

lemma process_milestone_raises:
  assumes "state team = Some st0"
  shows "process_milestone desc team w =
     (Inl JSONTypeError,
      team\<lparr>state := Some (st0\<lparr>milestones := milestones st0 @
          [\<lparr>id_m = PStr (''milestone_'' @ str_nat (length (milestones st0) + 1)),
            description = PStr desc, status_m = PEnum IN_PROGRESS, assigned_to = PStr ''CTO'',
            created_at_m = PStr (clock w (ticks w)), completed_at = PNone, feedback = PList []\<rparr>],
          current_milestone_id := PStr (''milestone_'' @ str_nat (length (milestones st0) + 1))\<rparr>)\<rparr>,
      w\<lparr>ticks := Suc (ticks w),
        files := (files w)(StateFile (py_str (project_id st0)) \<mapsto> Truncated)\<rparr>)"
proof -
  let ?m0 = "\<lparr>id_m = PStr (''milestone_'' @ str_nat (length (milestones st0) + 1)),
            description = PStr desc, status_m = PEnum IN_PROGRESS, assigned_to = PStr ''CTO'',
            created_at_m = PStr (clock w (ticks w)), completed_at = PNone, feedback = PList []\<rparr>"
  let ?st1 = "st0\<lparr>milestones := milestones st0 @ [?m0],
          current_milestone_id := PStr (''milestone_'' @ str_nat (length (milestones st0) + 1))\<rparr>"
  have "has_enum (to_dict ?st1)"
    by (simp add: has_enum_to_dict has_enum_asdict_Milestone)
  then have "save_state ?st1 (w\<lparr>ticks := Suc (ticks w)\<rparr>) =
      (Inl JSONTypeError, w\<lparr>ticks := Suc (ticks w),
        files := (files w)(StateFile (py_str (project_id st0)) \<mapsto> Truncated)\<rparr>)"
    by (simp add: save_state_has_enum)
  then show ?thesis
    using assms by (simp add: process_milestone_def now_def Let_def)
qed

section \<open>The scenarios\<close>

lemma started_eq:
  "started service =
     (Inl JSONTypeError, (fresh_team ''X'')\<lparr>state := Some example_state\<rparr>,
      (empty_disk service)\<lparr>ticks := 1, files := [StateFile ''X'' \<mapsto> Truncated]\<rparr>)"
proof -
  have "has_enum (to_dict example_state)"
    by (simp add: has_enum_to_dict example_state_def)
  then have "save_state example_state ((empty_disk service)\<lparr>ticks := 1\<rparr>) =
      (Inl JSONTypeError, (empty_disk service)\<lparr>ticks := 1, files := [StateFile ''X'' \<mapsto> Truncated]\<rparr>)"
    by (simp add: save_state_has_enum) (simp add: example_state_def empty_disk_def)
  moreover have "map (\<lambda>(agent, a). (agent, PList [])) (agents (fresh_team ''X'')) =
      [(''CEO'', PList []), (''CTO'', PList []), (''Tester'', PList []), (''Coder'', PList [])]"
    by (simp add: fresh_team_def roles_def)
  ultimately show ?thesis
    by (simp add: started_def start_new_project_def now_def Let_def example_state_def empty_disk_def fresh_team_def)
qed

lemma add_login_eq:
  "add_login service =
     (Inl JSONTypeError,
      (fresh_team ''X'')\<lparr>state := Some (example_state\<lparr>milestones :=
          [\<lparr>id_m = PStr ''milestone_1'', description = PStr ''Add login'',
            status_m = PEnum IN_PROGRESS, assigned_to = PStr ''CTO'',
            created_at_m = PStr ''2024-01-01T00:00:00'', completed_at = PNone,
            feedback = PList []\<rparr>],
          current_milestone_id := PStr ''milestone_1''\<rparr>)\<rparr>,
      (empty_disk service)\<lparr>ticks := 2, files := [StateFile ''X'' \<mapsto> Truncated]\<rparr>)"
proof -
  have s: "str_nat (Suc 0) = ''1''"
    by code_simp
  show ?thesis
    unfolding add_login_def started_eq
    by (simp add: process_milestone_raises [where ?st0.0 = example_state] s)
      (simp add: example_state_def empty_disk_def s)
qed

text \<open>
  Claim C1 says that \<^verbatim>\<open>save\<close> followed by \<^verbatim>\<open>load\<close> of the same project identifier gives back
  an equal \<^verbatim>\<open>ProjectState\<close>, with the status written as its string tag. On the state that
  \<^verbatim>\<open>start_new_project("X", "reqs")\<close> builds, \<^verbatim>\<open>save_state\<close> raises the \<^verbatim>\<open>TypeError\<close> of the JSON
  encoder (an enum member is not serializable), and \<^verbatim>\<open>load_state("X")\<close> then raises
  \<^verbatim>\<open>JSONDecodeError\<close> on the truncated document.
\<close>

theorem save_state_then_load_state_raises:
  "fst (save_state example_state (empty_disk always_ok)) = Inl JSONTypeError \<and>
   load_state ''X'' (snd (save_state example_state (empty_disk always_ok))) = Inl JSONDecodeError"
proof -
  have "has_enum (to_dict example_state)"
    by (simp add: has_enum_to_dict example_state_def)
  then show ?thesis
    by (simp add: save_state_has_enum load_state_def) (simp add: example_state_def)
qed

text \<open>
  Claim C2 says that \<^verbatim>\<open>process_milestone\<close> with four successful role invocations completes
  the milestone and returns the mapping from each role to its response, all \<^verbatim>\<open>"ok"\<close> for a
  service that always answers \<^verbatim>\<open>"ok"\<close>. With that service, \<^verbatim>\<open>process_milestone("Add login")\<close>
  raises the \<^verbatim>\<open>TypeError\<close> of the JSON encoder and has sent no request to the service.
\<close>

theorem process_milestone_always_ok_raises:
  "fst (add_login always_ok) = Inl JSONTypeError \<and>
   requests (snd (snd (add_login always_ok))) = 0"
  by (simp add: add_login_eq empty_disk_def)

text \<open>
  Claim C3 says that when the Tester's invocation fails, the persisted milestone is on hold
  with the feedback of CEO and CTO. With a service that fails for the Tester,
  \<^verbatim>\<open>process_milestone("Add login")\<close> raises the \<^verbatim>\<open>TypeError\<close> of the JSON encoder before any
  request is sent; the milestone of the state in memory is still in progress, with no
  completion time and no feedback.
\<close>

theorem process_milestone_tester_fails_raises:
  "fst (add_login tester_fails) = Inl JSONTypeError \<and>
   requests (snd (snd (add_login tester_fails))) = 0 \<and>
   map_option (\<lambda>st. map (\<lambda>m. (status_m m, completed_at m, feedback m)) (milestones st))
     (state (fst (snd (add_login tester_fails)))) = Some [(PEnum IN_PROGRESS, PNone, PList [])]"
  by (simp add: add_login_eq empty_disk_def example_state_def)

text \<open>
  Claim C8 says that \<^verbatim>\<open>process_milestone\<close> persists the state with the new milestone before
  any role runs. After \<^verbatim>\<open>process_milestone("Add login")\<close> the document of the project is
  truncated, and \<^verbatim>\<open>load_state\<close> raises \<^verbatim>\<open>JSONDecodeError\<close> on it: no checkpoint was written.
\<close>

theorem process_milestone_checkpoint_not_written:
  "files (snd (snd (add_login always_ok))) (StateFile ''X'') = Some Truncated \<and>
   load_state ''X'' (snd (snd (add_login always_ok))) = Inl JSONDecodeError"
  by (simp add: add_login_eq load_state_def)

section \<open>The memory summary\<close>

text \<open>
  Claim C5: for every memory, \<^verbatim>\<open>get_memory_summary\<close> returns the last five decisions and the
  last five learnings in their order (all of them when there are fewer), so at most five of
  each, with the whole context and the whole next steps. It is a function of the memory
  and returns only the summary: the memory is not changed.
\<close>

theorem get_memory_summary_last_five:
  "\<exists>ds ls. get_memory_summary m = PDict
       [(''recent_decisions'', PList ds), (''key_learnings'', PList ls),
        (''current_context'', PDict (context_d m)), (''pending_steps'', next_steps m)] \<and>
     suffix ds (decisions m) \<and> length ds = min 5 (length (decisions m)) \<and>
     suffix ls (learnings m) \<and> length ls = min 5 (length (learnings m))"
  by (auto simp: get_memory_summary_def last5_def suffix_drop)

theorem get_memory_summary_last_five_witness:
  "get_memory_summary ((empty_memory ''CEO'' ''X'')
       \<lparr>decisions := [PStr ''d1'', PStr ''d2'', PStr ''d3'', PStr ''d4'', PStr ''d5'', PStr ''d6''],
        learnings := [PStr ''l1'']\<rparr>) =
     PDict [(''recent_decisions'', PList [PStr ''d2'', PStr ''d3'', PStr ''d4'', PStr ''d5'', PStr ''d6'']),
            (''key_learnings'', PList [PStr ''l1'']),
            (''current_context'', PDict []), (''pending_steps'', PList [])]"
proof -
  let ?m = "(empty_memory ''CEO'' ''X'')
       \<lparr>decisions := [PStr ''d1'', PStr ''d2'', PStr ''d3'', PStr ''d4'', PStr ''d5'', PStr ''d6''],
        learnings := [PStr ''l1'']\<rparr>"
  from get_memory_summary_last_five [of ?m] obtain ds ls where
    s: "get_memory_summary ?m = PDict
       [(''recent_decisions'', PList ds), (''key_learnings'', PList ls),
        (''current_context'', PDict (context_d ?m)), (''pending_steps'', next_steps ?m)]"
    and d: "suffix ds (decisions ?m)" "length ds = min 5 (length (decisions ?m))"
    and l: "suffix ls (learnings ?m)" "length ls = min 5 (length (learnings ?m))"
    by blast
  from d have "ds = [PStr ''d2'', PStr ''d3'', PStr ''d4'', PStr ''d5'', PStr ''d6'']"
    by (auto simp: suffix_def append_eq_Cons_conv Cons_eq_append_conv)
  moreover from l have "ls = [PStr ''l1'']"
    by (auto simp: suffix_def append_eq_Cons_conv Cons_eq_append_conv)
  ultimately show ?thesis
    using s by (simp add: empty_memory_def)
qed

section \<open>process_message\<close>

lemma has_enum_memory_dict:
  "has_enum (memory_dict m) \<longleftrightarrow>
     list_ex has_enum (decisions m) \<or> list_ex has_enum (learnings m) \<or>
     list_ex (\<lambda>(k, v). has_enum v) (context_d m) \<or> has_enum (next_steps m)"
  by (simp add: memory_dict_def)

lemma list_ex_last5: "list_ex P (last5 xs) \<Longrightarrow> list_ex P xs"
  by (auto simp: last5_def list_ex_iff dest: in_set_dropD)

lemma has_enum_get_memory_summary:
  "\<not> has_enum (memory_dict m) \<Longrightarrow> \<not> has_enum (get_memory_summary m)"
  by (auto simp: has_enum_memory_dict get_memory_summary_def dest: list_ex_last5)

lemma save_memory_ok:
  "\<not> has_enum (memory_dict m) \<Longrightarrow>
     \<exists>j. save_memory m w = (Inr (), w\<lparr>files := (files w)(memory_file m \<mapsto> Complete j)\<rparr>)"
  using json_dumps_Inr_iff [of "memory_dict m"]
  by (auto simp: save_memory_def json_dump_file_def)

lemma add_learning_ok:
  assumes "\<not> has_enum (memory_dict m)"
  shows "\<exists>w'. add_learning text m w =
     (Inr (), m\<lparr>learnings := learnings m @
        [PDict [(''timestamp'', PStr (clock w (ticks w))), (''learning'', PStr text)]]\<rparr>, w')"
proof -
  let ?m1 = "m\<lparr>learnings := learnings m @
        [PDict [(''timestamp'', PStr (clock w (ticks w))), (''learning'', PStr text)]]\<rparr>"
  have "\<not> has_enum (memory_dict ?m1)"
    using assms by (simp add: has_enum_memory_dict)
  from save_memory_ok [OF this, of "w\<lparr>ticks := Suc (ticks w)\<rparr>"]
  show ?thesis
    by (auto simp: add_learning_def now_def Let_def)
qed

lemma add_decision_ok:
  assumes "\<not> has_enum (memory_dict m)" and "\<not> has_enum ctx"
  shows "\<exists>w'. add_decision text ctx m w =
     (Inr (), m\<lparr>decisions := decisions m @
        [PDict [(''timestamp'', PStr (clock w (ticks w))), (''decision'', PStr text),
                (''context'', ctx)]]\<rparr>, w') \<and> clock w' = clock w"
proof -
  let ?m1 = "m\<lparr>decisions := decisions m @
        [PDict [(''timestamp'', PStr (clock w (ticks w))), (''decision'', PStr text),
                (''context'', ctx)]]\<rparr>"
  have "\<not> has_enum (memory_dict ?m1)"
    using assms by (simp add: has_enum_memory_dict)
  from save_memory_ok [OF this, of "w\<lparr>ticks := Suc (ticks w)\<rparr>"]
  show ?thesis
    by (auto simp: add_decision_def now_def Let_def)
qed

lemma process_message_try_cases:
  assumes "\<not> has_enum (memory_dict (memory a))"
  shows "(\<exists>cause. failure_cause a message ctx w = Some cause \<and>
            (\<exists>w1. process_message_try a message ctx sd w = (Inl cause, a, w1) \<and>
                  clock w1 = clock w \<and> ticks w1 = ticks w)) \<or>
         (\<exists>doc resp w1. failure_cause a message ctx w = None \<and>
            json_dumps (full_context a ctx) = Inr doc \<and>
            llm w (requests w) (role a) doc message = Inr resp \<and>
            process_message_try a message ctx sd w =
              (Inr resp,
               a\<lparr>memory := (memory a)\<lparr>decisions := decisions (memory a) @
                  (if sd then [decision_entry w resp (full_context a ctx)] else [])\<rparr>\<rparr>, w1))"
proof (cases "role a \<in> set roles")
  case False
  then show ?thesis
    by (simp add: failure_cause_def process_message_try_def Let_def)
next
  case r: True
  show ?thesis
  proof (cases "json_dumps (full_context a ctx)")
    case (Inl e)
    then have "e = JSONTypeError" by (rule json_dumps_error)
    with Inl r show ?thesis
      by (simp add: failure_cause_def process_message_try_def Let_def full_context_def)
  next
    case (Inr doc)
    then have ne: "\<not> has_enum (full_context a ctx)"
      using json_dumps_Inr_iff [of "full_context a ctx"] by auto
    show ?thesis
    proof (cases "llm w (requests w) (role a) doc message")
      case (Inl msg)
      with Inr r show ?thesis
        by (simp add: failure_cause_def process_message_try_def Let_def full_context_def)
    next
      case t: (Inr resp)
      show ?thesis
      proof (cases sd)
        case False
        with Inr r t show ?thesis
          by (simp add: failure_cause_def process_message_try_def Let_def full_context_def)
      next
        case True
        from add_decision_ok [OF assms ne, of resp "w\<lparr>requests := Suc (requests w)\<rparr>"]
        obtain w' where "add_decision resp (full_context a ctx) (memory a)
            (w\<lparr>requests := Suc (requests w)\<rparr>) =
          (Inr (), (memory a)\<lparr>decisions := decisions (memory a) @
             [decision_entry w resp (full_context a ctx)]\<rparr>, w')"
          by (auto simp: decision_entry_def)
        with True Inr r t show ?thesis
          by (simp add: failure_cause_def process_message_try_def Let_def full_context_def)
      qed
    qed
  qed
qed

lemma process_message_cases:
  assumes "\<not> has_enum (memory_dict (memory a))"
  shows "(\<exists>cause w'. failure_cause a message ctx w = Some cause \<and>
            process_message a message ctx sd w =
              (Inl (RuntimeError (''Error in '' @ role a @ '' agent: '' @ str_e cause)),
               a\<lparr>memory := (memory a)\<lparr>learnings := learnings (memory a) @
                  [learning_entry w cause]\<rparr>\<rparr>, w')) \<or>
         (\<exists>doc resp w'. failure_cause a message ctx w = None \<and>
            json_dumps (full_context a ctx) = Inr doc \<and>
            llm w (requests w) (role a) doc message = Inr resp \<and>
            process_message a message ctx sd w =
              (Inr resp,
               a\<lparr>memory := (memory a)\<lparr>decisions := decisions (memory a) @
                  (if sd then [decision_entry w resp (full_context a ctx)] else [])\<rparr>\<rparr>, w'))"
  using process_message_try_cases [OF assms, of message ctx w sd]
proof (elim disjE exE conjE)
  fix cause w1
  assume c: "failure_cause a message ctx w = Some cause"
    and t: "process_message_try a message ctx sd w = (Inl cause, a, w1)"
    and k: "clock w1 = clock w" "ticks w1 = ticks w"
  from add_learning_ok [OF assms, of "''Error encountered: '' @ str_e cause" w1]
  obtain w' where "add_learning (''Error encountered: '' @ str_e cause) (memory a) w1 =
      (Inr (), (memory a)\<lparr>learnings := learnings (memory a) @ [learning_entry w cause]\<rparr>, w')"
    by (auto simp: learning_entry_def k)
  with c t show ?thesis
    by (simp add: process_message_def)
next
  fix doc resp w1
  assume "failure_cause a message ctx w = None"
    "json_dumps (full_context a ctx) = Inr doc"
    "llm w (requests w) (role a) doc message = Inr resp"
    "process_message_try a message ctx sd w =
      (Inr resp, a\<lparr>memory := (memory a)\<lparr>decisions := decisions (memory a) @
         (if sd then [decision_entry w resp (full_context a ctx)] else [])\<rparr>\<rparr>, w1)"
  then show ?thesis
    by (simp add: process_message_def)
qed

text \<open>
  The memory of an agent holds no enum member: \<^verbatim>\<open>load_memory\<close> starts from the empty
  memory or from what \<^verbatim>\<open>json.load\<close> returns, and \<^verbatim>\<open>process_message\<close> keeps it so.
\<close>

lemma snd_dict_set: "(a, b) \<in> set (dict_set k v d) \<Longrightarrow> b = v \<or> b \<in> snd ` set d"
  by (induction d) (force split: if_splits)+

lemma snd_dict_update:
  "(a, b) \<in> set (dict_update d e) \<Longrightarrow> b \<in> snd ` set d \<or> b \<in> snd ` set e"
  unfolding dict_update_def
proof (induction e arbitrary: d)
  case Nil
  then show ?case by (force simp: image_iff)
next
  case (Cons x e)
  obtain k v where x: "x = (k, v)" by (cases x)
  from Cons.prems have "(a, b) \<in> set (foldl (\<lambda>acc (k, v). dict_set k v acc) (dict_set k v d) e)"
    by (simp add: x)
  from Cons.IH [OF this] show ?case
  proof
    assume "b \<in> snd ` set (dict_set k v d)"
    then obtain a' where "(a', b) \<in> set (dict_set k v d)" by auto
    from snd_dict_set [OF this] show ?thesis by (auto simp: x)
  next
    assume "b \<in> snd ` set e"
    then show ?thesis by simp
  qed
qed

lemma json_loads_no_enum: "\<not> has_enum (json_loads j)"
proof (induction j)
  case (JArr js)
  then show ?case by (auto simp: list_ex_iff)
next
  case (JObj kvs)
  have v: "\<not> has_enum b" if "b \<in> snd ` set (map (\<lambda>(k, j). (k, json_loads j)) kvs)" for b
    using that JObj by (fastforce simp: image_iff)
  have "\<not> has_enum b" if "(a, b) \<in> set (dict_update [] (map (\<lambda>(k, j). (k, json_loads j)) kvs))" for a b
    using snd_dict_update [OF that] v by auto
  then show ?case
    by (auto simp: list_ex_iff)
qed auto

lemma empty_memory_serializable: "\<not> has_enum (memory_dict (empty_memory agent_id pid))"
  by (simp add: has_enum_memory_dict empty_memory_def)

lemma process_message_keeps_serializable:
  assumes "\<not> has_enum (memory_dict (memory a))"
  shows "\<not> has_enum (memory_dict (memory (fst (snd (process_message a message ctx sd w)))))"
proof -
  have "\<not> has_enum (full_context a ctx)" if "json_dumps (full_context a ctx) = Inr doc" for doc
    using that json_dumps_Inr_iff [of "full_context a ctx"] by auto
  with process_message_cases [OF assms, of message ctx w sd] assms show ?thesis
    by (auto simp: has_enum_memory_dict learning_entry_def decision_entry_def split: if_splits)
qed

text \<open>
  Claim C7: when a step of \<^verbatim>\<open>process_message\<close> fails (the system prompt of the role is
  missing, the context cannot be encoded, or the generation service raises), the agent
  appends one learning entry with the text of the error to its memory and raises a
  \<^verbatim>\<open>RuntimeError\<close> whose message names the role and the error; no response is returned. When
  no step fails, the response is the text that the service returned, and with
  \<^verbatim>\<open>save_decision\<close> exactly one decision entry, holding the response and the full context
  with the memory summary, is appended before the response is returned. The memory of the
  agent holds no enum member: this holds for an empty memory and is kept by
  \<^verbatim>\<open>process_message\<close>.
\<close>

theorem process_message_outcome:
  assumes "\<not> has_enum (memory_dict (memory a))"
  shows "(\<exists>cause w'. failure_cause a message ctx w = Some cause \<and>
            process_message a message ctx sd w =
              (Inl (RuntimeError (''Error in '' @ role a @ '' agent: '' @ str_e cause)),
               a\<lparr>memory := (memory a)\<lparr>learnings := learnings (memory a) @
                  [learning_entry w cause]\<rparr>\<rparr>, w')) \<or>
         (\<exists>doc resp w'. failure_cause a message ctx w = None \<and>
            json_dumps (full_context a ctx) = Inr doc \<and>
            llm w (requests w) (role a) doc message = Inr resp \<and>
            process_message a message ctx sd w =
              (Inr resp,
               a\<lparr>memory := (memory a)\<lparr>decisions := decisions (memory a) @
                  (if sd then [decision_entry w resp (full_context a ctx)] else [])\<rparr>\<rparr>, w'))"
  using assms by (rule process_message_cases)

theorem process_message_outcome_witness:
  "\<not> has_enum (memory_dict (memory \<lparr>role = ''Tester'', memory = empty_memory ''Tester'' ''X''\<rparr>)) \<and>
   fst (process_message \<lparr>role = ''Tester'', memory = empty_memory ''Tester'' ''X''\<rparr>
          ''Process milestone: Add login'' None True (empty_disk tester_fails)) =
     Inl (RuntimeError ''Error in Tester agent: service unavailable'') \<and>
   fst (process_message \<lparr>role = ''Tester'', memory = empty_memory ''Tester'' ''X''\<rparr>
          ''Process milestone: Add login'' None True (empty_disk always_ok)) = Inr ''ok''"
proof -
  let ?a = "\<lparr>role = ''Tester'', memory = empty_memory ''Tester'' ''X''\<rparr>"
  have h: "\<not> has_enum (memory_dict (memory ?a))"
    by (simp add: empty_memory_serializable)
  have f: "failure_cause ?a ''Process milestone: Add login'' None (empty_disk tester_fails) =
      Some (ServiceError ''service unavailable'')"
    by (simp add: failure_cause_def full_context_def get_memory_summary_def last5_def
        empty_memory_def roles_def tester_fails_def empty_disk_def)
  have g: "failure_cause ?a ''Process milestone: Add login'' None (empty_disk always_ok) = None"
    "llm (empty_disk always_ok) k r d m = Inr ''ok''" for k r d m
    by (simp_all add: failure_cause_def full_context_def get_memory_summary_def last5_def
        empty_memory_def roles_def always_ok_def empty_disk_def)
  from process_message_outcome [OF h, of "''Process milestone: Add login''" None
      "empty_disk tester_fails" True] f
  have 1: "fst (process_message ?a ''Process milestone: Add login'' None True
      (empty_disk tester_fails)) = Inl (RuntimeError ''Error in Tester agent: service unavailable'')"
    by auto
  from process_message_outcome [OF h, of "''Process milestone: Add login''" None
      "empty_disk always_ok" True] g
  have 2: "fst (process_message ?a ''Process milestone: Add login'' None True
      (empty_disk always_ok)) = Inr ''ok''"
    by auto
  from h 1 2 show ?thesis by blast
qed

section \<open>What the orchestrator changes in the state\<close>

text \<open>
  The role loop, the completion and the handler of \<^verbatim>\<open>process_milestone\<close> write to the local
  milestone only, which is the last milestone of the state: every other field of the state
  and the identifier of every milestone stay as they are, whatever the roles and the saves
  do.
\<close>

lemma rest_set_current: "rest_of_state (set_current m st) = rest_of_state st"
  by (simp add: rest_of_state_def set_current_def)

lemma role_loop_rest:
  "role_loop desc ags st m res w = (r, ags', st', m', res', w') \<Longrightarrow>
     rest_of_state st' = rest_of_state st"
proof (induction ags arbitrary: st m res w r ags' st' m' res' w')
  case Nil
  then show ?case by simp
next
  case (Cons a ags)
  obtain key agent where a: "a = (key, agent)" by (cases a)
  from Cons.prems show ?case
    unfolding a
    by (auto simp: Let_def now_def rest_set_current
        split: prod.splits sum.splits pyval.splits dest!: Cons.IH)
qed

lemma milestone_try_rest:
  "milestone_try desc ags st m w = (r, ags', st', m', w') \<Longrightarrow>
     rest_of_state st' = rest_of_state st"
  by (auto simp: milestone_try_def Let_def now_def rest_set_current
      split: prod.splits sum.splits dest!: role_loop_rest)

lemma process_milestone_rest:
  "process_milestone desc team w = (r, team', w') \<Longrightarrow>
     map_option rest_of_state (state team') = map_option rest_of_state (state team)"
proof (cases "state team")
  case None
  assume "process_milestone desc team w = (r, team', w')"
  with None show ?thesis by (auto simp: process_milestone_def)
next
  case (Some st0)
  assume p: "process_milestone desc team w = (r, team', w')"
  have e: "rest_of_state (st0\<lparr>milestones := ms, current_milestone_id := c\<rparr>) = rest_of_state st0" for ms c
    by (simp add: rest_of_state_def)
  from p Some show ?thesis
    by (auto simp: process_milestone_def Let_def now_def rest_set_current e
        split: prod.splits sum.splits dest!: milestone_try_rest)
qed

lemma milestones_set_current:
  "milestones st = pre @ [m] \<Longrightarrow> milestones (set_current m1 st) = pre @ [m1]"
  by (simp add: set_current_def)

lemma role_loop_milestones:
  "role_loop desc ags st m res w = (r, ags', st', m', res', w') \<Longrightarrow>
   milestones st = pre @ [m] \<Longrightarrow>
     milestones st' = pre @ [m'] \<and> id_m m' = id_m m"
proof (induction ags arbitrary: st m res w r ags' st' m' res' w')
  case Nil
  then show ?case by simp
next
  case (Cons a ags)
  obtain key agent where a: "a = (key, agent)" by (cases a)
  from Cons.prems show ?case
    unfolding a
    by (auto simp: Let_def now_def
        split: prod.splits sum.splits pyval.splits
        dest!: Cons.IH [OF _ milestones_set_current])
qed

lemma milestone_try_milestones:
  "milestone_try desc ags st m w = (r, ags', st', m', w') \<Longrightarrow>
   milestones st = pre @ [m] \<Longrightarrow>
     milestones st' = pre @ [m'] \<and> id_m m' = id_m m"
  by (auto simp: milestone_try_def Let_def now_def milestones_set_current
      split: prod.splits sum.splits dest!: role_loop_milestones)

lemma process_milestone_ids:
  assumes "process_milestone desc team w = (r, team', w')" and "state team = Some st0"
  shows "\<exists>st'. state team' = Some st' \<and>
     map id_m (milestones st') =
       map id_m (milestones st0) @ [milestone_name (Suc (length (milestones st0)))]"
  using assms
  by (auto simp: process_milestone_def Let_def now_def milestones_set_current milestone_name_def
      split: prod.splits sum.splits dest!: milestone_try_milestones [where pre = "milestones st0"])

lemma process_milestone_no_state:
  "state team = None \<Longrightarrow> state (fst (snd (process_milestone desc team w))) = None"
  by (simp add: process_milestone_def)

lemma state_start_new_project:
  "state (fst (snd (start_new_project nm reqs team w))) =
     Some \<lparr>project_id = PStr (project_id_t team), name = PStr nm, requirements = PStr reqs,
           status = PEnum NOT_STARTED, created_at = PStr (clock w (ticks w)),
           updated_at = PStr (clock w (ticks w)), milestones = [], learning_points = PList [],
           team_feedback = PDict (map (\<lambda>(agent, a). (agent, PList [])) (agents team)),
           current_milestone_id = PNone\<rparr>"
  by (simp add: start_new_project_def now_def Let_def split: prod.splits)

lemma state_resume_project: "state (fst (snd (resume_project team w))) = state team"
  by (simp add: resume_project_def split: option.splits prod.splits)

lemma state_process_milestone:
  "state (fst (snd (process_milestone desc team w))) =
     map_option (\<lambda>st. st\<lparr>milestones := milestones st @
          [\<lparr>id_m = milestone_name (length (milestones st) + 1),
            description = PStr desc, status_m = PEnum IN_PROGRESS, assigned_to = PStr ''CTO'',
            created_at_m = PStr (clock w (ticks w)), completed_at = PNone, feedback = PList []\<rparr>],
          current_milestone_id := milestone_name (length (milestones st) + 1)\<rparr>) (state team)"
proof (cases "state team")
  case None
  then show ?thesis by (simp add: process_milestone_def)
next
  case (Some st0)
  then show ?thesis
    by (simp add: process_milestone_raises [OF Some] milestone_name_def)
qed

section \<open>Milestone identifiers\<close>

lemma of_char_digit: "k < 10 \<Longrightarrow> (of_char (char_of (48 + k)) :: nat) = 48 + k"
  by simp

lemma str_nat_inverse: "foldl (\<lambda>a c. 10 * a + (of_char c - 48)) 0 (str_nat n) = n"
proof (induction n rule: str_nat.induct)
  case (1 n)
  show ?case
  proof (cases "n < 10")
    case True
    then show ?thesis
      by (subst str_nat.simps) (simp add: of_char_digit)
  next
    case False
    have "n mod 10 < 10" by simp
    then have d: "(of_char (char_of (48 + n mod 10)) :: nat) = 48 + n mod 10"
      by (rule of_char_digit)
    from False show ?thesis
      by (subst str_nat.simps) (simp add: "1.IH" d del: of_char_of)
  qed
qed

lemma str_nat_inj: "str_nat n = str_nat m \<Longrightarrow> n = m"
  by (metis str_nat_inverse)

lemma distinct_milestone_names: "distinct (map milestone_name [1..<Suc n])"
  by (auto simp: distinct_map inj_on_def milestone_name_def dest: str_nat_inj)

lemma ids_process_milestone:
  assumes "state team = Some st"
  shows "\<exists>st'. state (fst (snd (process_milestone desc team w))) = Some st' \<and>
     length (milestones st') = Suc (length (milestones st)) \<and>
     (ids_by_position st \<longrightarrow> ids_by_position st')"
proof -
  obtain r team' w' where p: "process_milestone desc team w = (r, team', w')"
    by (cases "process_milestone desc team w")
  from process_milestone_ids [OF p assms] obtain st' where
    st': "state team' = Some st'"
      "map id_m (milestones st') =
         map id_m (milestones st) @ [milestone_name (Suc (length (milestones st)))]"
    by blast
  from st'(2) have "length (map id_m (milestones st')) =
      length (map id_m (milestones st) @ [milestone_name (Suc (length (milestones st)))])"
    by (rule arg_cong)
  then have len: "length (milestones st') = Suc (length (milestones st))"
    by simp
  have "ids_by_position st'" if "ids_by_position st"
    using that st'(2) by (simp add: ids_by_position_def len)
  with st'(1) len show ?thesis
    by (simp add: p)
qed

lemma ids_run_call:
  assumes "\<exists>st. state (fst tw) = Some st \<and> ids_by_position st"
  shows "\<exists>st. state (fst (run_call c tw)) = Some st \<and> ids_by_position st"
proof (cases tw)
  case (Pair team w)
  with assms obtain st where st: "state team = Some st" "ids_by_position st" by auto
  show ?thesis
  proof (cases c)
    case (StartNewProject nm reqs)
    then show ?thesis
      by (simp add: Pair state_start_new_project ids_by_position_def)
  next
    case ResumeProject
    with st show ?thesis by (simp add: Pair state_resume_project)
  next
    case (ProcessMilestone desc)
    with st ids_process_milestone [OF st(1), of desc w] show ?thesis
      by (auto simp: Pair)
  qed
qed

lemma ids_run_calls:
  "\<exists>st. state (fst tw) = Some st \<and> ids_by_position st \<Longrightarrow>
   \<exists>st. state (fst (run_calls cs tw)) = Some st \<and> ids_by_position st"
  unfolding run_calls_def
  by (induction cs arbitrary: tw) (simp_all add: ids_run_call)

lemma count_run_calls:
  "state (fst tw) = Some st \<Longrightarrow>
   \<exists>st'. state (fst (run_calls (map ProcessMilestone ds) tw)) = Some st' \<and>
         length (milestones st') = length (milestones st) + length ds"
  unfolding run_calls_def
proof (induction ds arbitrary: tw st)
  case Nil
  then show ?case by simp
next
  case (Cons d ds)
  obtain team w where tw: "tw = (team, w)" by (cases tw)
  with Cons.prems ids_process_milestone [of team st d w]
  have "\<exists>st1. state (fst (run_call (ProcessMilestone d) tw)) = Some st1 \<and>
      length (milestones st1) = Suc (length (milestones st))"
    by auto
  then obtain st1 where "state (fst (run_call (ProcessMilestone d) tw)) = Some st1"
    "length (milestones st1) = Suc (length (milestones st))" by blast
  from Cons.IH [OF this(1)] this(2) show ?case by simp
qed

text \<open>
  Claim C4: in the state that any sequence of calls builds after \<^verbatim>\<open>start_new_project\<close>, the
  identifier of the milestone at position \<open>k\<close> (counted from 1) is \<^verbatim>\<open>milestone_k\<close>, and the
  identifiers are distinct; after \<^verbatim>\<open>start_new_project\<close> and \<open>n\<close> calls of
  \<^verbatim>\<open>process_milestone\<close> they are \<^verbatim>\<open>milestone_1\<close> to \<^verbatim>\<open>milestone_n\<close>.
\<close>

theorem milestone_ids_follow_position:
  "(\<exists>st. state (fst (run_calls (StartNewProject nm reqs # cs) (team, w))) = Some st \<and>
      map id_m (milestones st) = map milestone_name [1..<Suc (length (milestones st))] \<and>
      distinct (map id_m (milestones st))) \<and>
   (\<exists>st. state (fst (run_calls (StartNewProject nm reqs # map ProcessMilestone ds) (team, w))) = Some st \<and>
      map id_m (milestones st) = map milestone_name [1..<Suc (length ds)])"
proof -
  let ?tw = "run_call (StartNewProject nm reqs) (team, w)"
  have start: "\<exists>st. state (fst ?tw) = Some st \<and> ids_by_position st \<and> milestones st = []"
    by (simp add: state_start_new_project ids_by_position_def)
  have run: "run_calls (StartNewProject nm reqs # xs) (team, w) = run_calls xs ?tw" for xs
    by (simp add: run_calls_def)
  from start have "\<exists>st. state (fst (run_calls cs ?tw)) = Some st \<and> ids_by_position st"
    by (intro ids_run_calls) blast
  then have a: "\<exists>st. state (fst (run_calls (StartNewProject nm reqs # cs) (team, w))) = Some st \<and>
      map id_m (milestones st) = map milestone_name [1..<Suc (length (milestones st))] \<and>
      distinct (map id_m (milestones st))"
    unfolding run ids_by_position_def
    using distinct_milestone_names by (metis (no_types, lifting))
  from start obtain st0 where st0: "state (fst ?tw) = Some st0" "milestones st0 = []" by blast
  from count_run_calls [OF st0(1), of ds] obtain st' where
    st': "state (fst (run_calls (map ProcessMilestone ds) ?tw)) = Some st'"
      "length (milestones st') = length ds" by (auto simp: st0)
  from start have "\<exists>st. state (fst (run_calls (map ProcessMilestone ds) ?tw)) = Some st \<and> ids_by_position st"
    by (intro ids_run_calls) blast
  with st' have b: "\<exists>st. state (fst (run_calls (StartNewProject nm reqs # map ProcessMilestone ds) (team, w))) = Some st \<and>
      map id_m (milestones st) = map milestone_name [1..<Suc (length ds)]"
    unfolding run ids_by_position_def by auto
  from a b show ?thesis by blast
qed

theorem milestone_ids_follow_position_witness:
  "\<exists>st. state (fst (run_calls
       [StartNewProject ''X'' ''reqs'', ProcessMilestone ''Add login'', ProcessMilestone ''Add logout'']
       (fresh_team ''X'', empty_disk always_ok))) = Some st \<and>
     map id_m (milestones st) = [PStr ''milestone_1'', PStr ''milestone_2'']"
proof -
  have n: "str_nat (Suc 0) = ''1''" "str_nat 2 = ''2''"
    by code_simp+
  have u: "[1..<Suc (length [''Add login'', ''Add logout''])] = [1, 2]"
    by (simp add: upt_rec)
  from milestone_ids_follow_position [of "''X''" "''reqs''" "[]" "fresh_team ''X''"
      "empty_disk always_ok" "[''Add login'', ''Add logout'']"]
  show ?thesis
    unfolding u by (simp add: milestone_name_def n)
qed

section \<open>The fields that only the creation writes\<close>

lemma rest_process_milestone:
  "map_option rest_of_state (state (fst (snd (process_milestone desc team w)))) =
   map_option rest_of_state (state team)"
  by (cases "process_milestone desc team w") (auto dest: process_milestone_rest)

lemma rest_run_later_call:
  "map_option rest_of_state (state (fst (run_call (later_call c) tw))) =
   map_option rest_of_state (state (fst tw))"
  by (cases tw; cases c) (simp_all add: state_resume_project rest_process_milestone)

lemma rest_run_later_calls:
  "map_option rest_of_state (state (fst (run_calls (map later_call cs) tw))) =
   map_option rest_of_state (state (fst tw))"
  unfolding run_calls_def
  by (induction cs arbitrary: tw) (simp_all add: rest_run_later_call)

lemma status_rest: "map_option status (map_option rest_of_state s) = map_option status s"
  by (cases s) (simp_all add: rest_of_state_def)

lemma updated_at_rest: "map_option updated_at (map_option rest_of_state s) = map_option updated_at s"
  by (cases s) (simp_all add: rest_of_state_def)

lemma run_calls_Cons: "run_calls (c # cs) tw = run_calls cs (run_call c tw)"
  by (simp add: run_calls_def)

text \<open>
  Claim C9: \<^verbatim>\<open>start_new_project\<close> sets the status of the project to
  \<^verbatim>\<open>ProjectStatus.NOT_STARTED\<close>; \<^verbatim>\<open>process_milestone\<close> and \<^verbatim>\<open>resume_project\<close> leave the status
  of the project as it is, whatever their outcome; so after the creation and any sequence
  of these two calls the status is still \<^verbatim>\<open>NOT_STARTED\<close>.
\<close>

theorem project_status_set_at_creation_only:
  "map_option status (state (fst (snd (start_new_project nm reqs team w)))) = Some (PEnum NOT_STARTED) \<and>
   map_option status (state (fst (snd (process_milestone desc team w)))) = map_option status (state team) \<and>
   map_option status (state (fst (snd (resume_project team w)))) = map_option status (state team) \<and>
   map_option status (state (fst (run_calls (StartNewProject nm reqs # map later_call cs) (team, w)))) =
     Some (PEnum NOT_STARTED)"
proof -
  have "map_option status (state (fst (snd (process_milestone desc team w)))) =
      map_option status (state team)"
    using arg_cong [OF rest_process_milestone [of desc team w], of "map_option status"]
    by (simp only: status_rest)
  moreover have "map_option status (state (fst (run_calls (StartNewProject nm reqs # map later_call cs) (team, w)))) =
      Some (PEnum NOT_STARTED)"
    using arg_cong [OF rest_run_later_calls [of cs "run_call (StartNewProject nm reqs) (team, w)"],
        of "map_option status"]
    by (simp only: status_rest run_calls_Cons) (simp add: state_start_new_project)
  ultimately show ?thesis
    by (simp add: state_start_new_project state_resume_project)
qed

theorem project_status_set_at_creation_only_witness:
  "map_option status (state (fst (run_calls
       [StartNewProject ''X'' ''reqs'', ProcessMilestone ''Add login'', ResumeProject]
       (fresh_team ''X'', empty_disk tester_fails)))) = Some (PEnum NOT_STARTED)"
  using project_status_set_at_creation_only [of "''X''" "''reqs''" "fresh_team ''X''"
      "empty_disk tester_fails" "''Add login''" "[Some ''Add login'', None]"]
  by simp

text \<open>
  Claim C10: \<^verbatim>\<open>start_new_project\<close> writes the same reading of the clock to \<^verbatim>\<open>created_at\<close> and
  \<^verbatim>\<open>updated_at\<close>; \<^verbatim>\<open>process_milestone\<close> and \<^verbatim>\<open>resume_project\<close> leave \<^verbatim>\<open>updated_at\<close> as it is,
  whatever their outcome; so after the creation and any sequence of these two calls
  \<^verbatim>\<open>updated_at\<close> is still the time of creation.
\<close>

theorem updated_at_written_once:
  "map_option (\<lambda>st. (created_at st, updated_at st)) (state (fst (snd (start_new_project nm reqs team w)))) =
     Some (PStr (clock w (ticks w)), PStr (clock w (ticks w))) \<and>
   map_option updated_at (state (fst (snd (process_milestone desc team w)))) = map_option updated_at (state team) \<and>
   map_option updated_at (state (fst (snd (resume_project team w)))) = map_option updated_at (state team) \<and>
   map_option updated_at (state (fst (run_calls (StartNewProject nm reqs # map later_call cs) (team, w)))) =
     Some (PStr (clock w (ticks w)))"
proof -
  have "map_option updated_at (state (fst (snd (process_milestone desc team w)))) =
      map_option updated_at (state team)"
    using arg_cong [OF rest_process_milestone [of desc team w], of "map_option updated_at"]
    by (simp only: updated_at_rest)
  moreover have "map_option updated_at (state (fst (run_calls (StartNewProject nm reqs # map later_call cs) (team, w)))) =
      Some (PStr (clock w (ticks w)))"
    using arg_cong [OF rest_run_later_calls [of cs "run_call (StartNewProject nm reqs) (team, w)"],
        of "map_option updated_at"]
    by (simp only: updated_at_rest run_calls_Cons) (simp add: state_start_new_project)
  ultimately show ?thesis
    by (simp add: state_start_new_project state_resume_project)
qed

theorem updated_at_written_once_witness:
  "map_option updated_at (state (fst (run_calls
       [StartNewProject ''X'' ''reqs'', ProcessMilestone ''Add login'', ResumeProject]
       (fresh_team ''X'', (empty_disk always_ok)\<lparr>clock := str_nat\<rparr>)))) = Some (PStr ''0'')"
proof -
  have n: "str_nat 0 = ''0''"
    by code_simp
  from updated_at_written_once [of "''X''" "''reqs''" "fresh_team ''X''"
      "(empty_disk always_ok)\<lparr>clock := str_nat\<rparr>" "''Add login''" "[Some ''Add login'', None]"]
  show ?thesis
    by (simp add: empty_disk_def n)
qed

section \<open>Loading a state\<close>

lemma dict_set_new: "k \<notin> fst ` set d \<Longrightarrow> dict_set k v d = d @ [(k, v)]"
  by (induction d) auto

lemma dict_update_append:
  "distinct (map fst (d @ e)) \<Longrightarrow> dict_update d e = d @ e"
proof (induction e arbitrary: d)
  case Nil
  then show ?case by (simp add: dict_update_def)
next
  case (Cons x e)
  obtain k v where x: "x = (k, v)" by (cases x)
  from Cons.prems have "k \<notin> fst ` set d" by (auto simp: x)
  then have s: "dict_set k v d = d @ [(k, v)]" by (rule dict_set_new)
  from Cons.prems have "distinct (map fst ((d @ [(k, v)]) @ e))" by (simp add: x)
  from Cons.IH [OF this] show ?case
    by (simp add: dict_update_def x s)
qed

lemma json_loads_JObj_distinct:
  "distinct (map fst kvs) \<Longrightarrow>
     json_loads (JObj kvs) = PDict (map (\<lambda>(k, j). (k, json_loads j)) kvs)"
proof -
  assume "distinct (map fst kvs)"
  then have "distinct (map fst ([] @ map (\<lambda>(k, j). (k, json_loads j)) kvs))"
    by (simp add: case_prod_unfold comp_def)
  from dict_update_append [OF this] show ?thesis by simp
qed

lemma map_of_loads:
  "map_of (map (\<lambda>(k, j). (k, json_loads j)) kvs) k = map_option json_loads (map_of kvs k)"
  by (induction kvs) auto

lemma fst_comp_loads: "fst \<circ> (\<lambda>(k, j). (k, f j)) = fst"
  by auto

lemma map_of_key: "k \<in> set (map fst kvs) \<Longrightarrow> \<exists>v. map_of kvs k = Some v"
  by (induction kvs) auto

lemma first_error_all_Inr:
  "list_all (\<lambda>r. \<exists>x. r = Inr x) rs \<Longrightarrow> \<exists>xs. first_error rs = Inr xs \<and> map Inr xs = rs"
  by (induction rs rule: first_error.induct) auto

lemma Milestone_init_document:
  assumes "milestone_document mj"
  shows "\<exists>m. Milestone_init (json_loads mj) = Inr m"
proof -
  from assms obtain kvs where mj: "mj = JObj kvs" and d: "distinct (map fst kvs)"
    and f: "list_all (\<lambda>k. k \<in> set Milestone_fields) (map fst kvs)"
    and r: "list_all (\<lambda>k. k \<in> set (map fst kvs))
            [''id'', ''description'', ''status'', ''assigned_to'', ''created_at'']"
    by (auto simp: milestone_document_def split: json.splits)
  let ?kw = "map (\<lambda>(k, j). (k, json_loads j)) kvs"
  have keys: "map fst ?kw = map fst kvs"
    by (simp add: case_prod_unfold comp_def)
  from r have "\<exists>v. map_of kvs ''id'' = Some v" "\<exists>v. map_of kvs ''description'' = Some v"
    "\<exists>v. map_of kvs ''status'' = Some v" "\<exists>v. map_of kvs ''assigned_to'' = Some v"
    "\<exists>v. map_of kvs ''created_at'' = Some v"
    by (simp_all add: map_of_key del: set_map)
  then obtain a b c d' e where
    "map_of ?kw ''id'' = Some a" "map_of ?kw ''description'' = Some b"
    "map_of ?kw ''status'' = Some c" "map_of ?kw ''assigned_to'' = Some d'"
    "map_of ?kw ''created_at'' = Some e"
    unfolding map_of_loads by auto
  with f show ?thesis
    unfolding mj json_loads_JObj_distinct [OF d] Milestone_init_def
    by (simp add: fst_comp_loads)
qed

lemma from_dict_document:
  assumes doc: "project_document (JObj kvs)" and ms: "map_of kvs ''milestones'' = Some (JArr ms)"
  shows "\<exists>st. from_dict (json_loads (JObj kvs)) = Inr st \<and>
      map Inr (milestones st) = map (\<lambda>mj. Milestone_init (json_loads mj)) ms \<and>
      Some (project_id st) = map_option json_loads (map_of kvs ''project_id'') \<and>
      Some (name st) = map_option json_loads (map_of kvs ''name'') \<and>
      Some (requirements st) = map_option json_loads (map_of kvs ''requirements'') \<and>
      Some (status st) = map_option json_loads (map_of kvs ''status'') \<and>
      Some (created_at st) = map_option json_loads (map_of kvs ''created_at'') \<and>
      Some (updated_at st) = map_option json_loads (map_of kvs ''updated_at'') \<and>
      Some (learning_points st) = map_option json_loads (map_of kvs ''learning_points'') \<and>
      Some (team_feedback st) = map_option json_loads (map_of kvs ''team_feedback'') \<and>
      Some (current_milestone_id st) = map_option json_loads (map_of kvs ''current_milestone_id'')"
proof -
  let ?kw = "map (\<lambda>(k, j). (k, json_loads j)) kvs"
  from doc have d: "distinct (map fst kvs)"
    and f: "list_all (\<lambda>k. k \<in> set ProjectState_fields) (map fst kvs)"
    and r: "list_all (\<lambda>k. k \<in> set (map fst kvs)) ProjectState_fields"
    and m: "list_all milestone_document ms"
    using ms by (auto simp: project_document_def)
  have l: "json_loads (JObj kvs) = PDict ?kw"
    using d by (rule json_loads_JObj_distinct)
  have "list_all (\<lambda>r. \<exists>x. r = Inr x) (map (\<lambda>mj. Milestone_init (json_loads mj)) ms)"
    using m by (auto simp: list_all_iff dest: Milestone_init_document)
  from first_error_all_Inr [OF this] obtain objs where
    objs: "first_error (map (\<lambda>mj. Milestone_init (json_loads mj)) ms) = Inr objs"
      "map Inr objs = map (\<lambda>mj. Milestone_init (json_loads mj)) ms"
    by blast
  from r have "\<exists>v. map_of kvs ''project_id'' = Some v" "\<exists>v. map_of kvs ''name'' = Some v"
    "\<exists>v. map_of kvs ''requirements'' = Some v" "\<exists>v. map_of kvs ''status'' = Some v"
    "\<exists>v. map_of kvs ''created_at'' = Some v" "\<exists>v. map_of kvs ''updated_at'' = Some v"
    "\<exists>v. map_of kvs ''learning_points'' = Some v" "\<exists>v. map_of kvs ''team_feedback'' = Some v"
    "\<exists>v. map_of kvs ''current_milestone_id'' = Some v"
    by (simp_all add: ProjectState_fields_def map_of_key del: set_map)
  then obtain p n rq s c u lp t cm where v:
    "map_of kvs ''project_id'' = Some p" "map_of kvs ''name'' = Some n"
    "map_of kvs ''requirements'' = Some rq" "map_of kvs ''status'' = Some s"
    "map_of kvs ''created_at'' = Some c" "map_of kvs ''updated_at'' = Some u"
    "map_of kvs ''learning_points'' = Some lp" "map_of kvs ''team_feedback'' = Some t"
    "map_of kvs ''current_milestone_id'' = Some cm"
    by auto
  have i: "ProjectState_init ?kw objs =
      Inr \<lparr>project_id = json_loads p, name = json_loads n, requirements = json_loads rq,
           status = json_loads s, created_at = json_loads c, updated_at = json_loads u,
           milestones = objs, learning_points = json_loads lp, team_feedback = json_loads t,
           current_milestone_id = json_loads cm\<rparr>"
    using f by (simp add: ProjectState_init_def map_of_loads v fst_comp_loads)
  have "from_dict (PDict ?kw) =
      Inr \<lparr>project_id = json_loads p, name = json_loads n, requirements = json_loads rq,
           status = json_loads s, created_at = json_loads c, updated_at = json_loads u,
           milestones = objs, learning_points = json_loads lp, team_feedback = json_loads t,
           current_milestone_id = json_loads cm\<rparr>"
    by (simp add: from_dict_def map_of_loads ms comp_def objs(1) i)
  then show ?thesis
    unfolding l by (simp add: v objs(2))
qed

lemma load_state_cases:
  "(files w (StateFile pid) = None \<longrightarrow> load_state pid w = Inr None) \<and>
   (files w (StateFile pid) = Some (Complete (JObj kvs)) \<and> project_document (JObj kvs) \<and>
    map_of kvs ''milestones'' = Some (JArr ms) \<longrightarrow>
      (\<exists>st. load_state pid w = Inr (Some st) \<and>
         map Inr (milestones st) = map (\<lambda>mj. Milestone_init (json_loads mj)) ms \<and>
         Some (project_id st) = map_option json_loads (map_of kvs ''project_id'') \<and>
         Some (name st) = map_option json_loads (map_of kvs ''name'') \<and>
         Some (requirements st) = map_option json_loads (map_of kvs ''requirements'') \<and>
         Some (status st) = map_option json_loads (map_of kvs ''status'') \<and>
         Some (created_at st) = map_option json_loads (map_of kvs ''created_at'') \<and>
         Some (updated_at st) = map_option json_loads (map_of kvs ''updated_at'') \<and>
         Some (learning_points st) = map_option json_loads (map_of kvs ''learning_points'') \<and>
         Some (team_feedback st) = map_option json_loads (map_of kvs ''team_feedback'') \<and>
         Some (current_milestone_id st) =
           map_option json_loads (map_of kvs ''current_milestone_id'')))"
proof (intro conjI impI)
  assume "files w (StateFile pid) = None"
  then show "load_state pid w = Inr None" by (simp add: load_state_def)
next
  assume a: "files w (StateFile pid) = Some (Complete (JObj kvs)) \<and> project_document (JObj kvs) \<and>
    map_of kvs ''milestones'' = Some (JArr ms)"
  then have "project_document (JObj kvs)" "map_of kvs ''milestones'' = Some (JArr ms)" by auto
  from from_dict_document [OF this] obtain st where
    st: "from_dict (json_loads (JObj kvs)) = Inr st" and
    rest: "map Inr (milestones st) = map (\<lambda>mj. Milestone_init (json_loads mj)) ms \<and>
      Some (project_id st) = map_option json_loads (map_of kvs ''project_id'') \<and>
      Some (name st) = map_option json_loads (map_of kvs ''name'') \<and>
      Some (requirements st) = map_option json_loads (map_of kvs ''requirements'') \<and>
      Some (status st) = map_option json_loads (map_of kvs ''status'') \<and>
      Some (created_at st) = map_option json_loads (map_of kvs ''created_at'') \<and>
      Some (updated_at st) = map_option json_loads (map_of kvs ''updated_at'') \<and>
      Some (learning_points st) = map_option json_loads (map_of kvs ''learning_points'') \<and>
      Some (team_feedback st) = map_option json_loads (map_of kvs ''team_feedback'') \<and>
      Some (current_milestone_id st) = map_option json_loads (map_of kvs ''current_milestone_id'')"
    by blast
  from a st have "load_state pid w = Inr (Some st)"
    by (simp add: load_state_def)
  with rest show "\<exists>st. load_state pid w = Inr (Some st) \<and>
         map Inr (milestones st) = map (\<lambda>mj. Milestone_init (json_loads mj)) ms \<and>
         Some (project_id st) = map_option json_loads (map_of kvs ''project_id'') \<and>
         Some (name st) = map_option json_loads (map_of kvs ''name'') \<and>
         Some (requirements st) = map_option json_loads (map_of kvs ''requirements'') \<and>
         Some (status st) = map_option json_loads (map_of kvs ''status'') \<and>
         Some (created_at st) = map_option json_loads (map_of kvs ''created_at'') \<and>
         Some (updated_at st) = map_option json_loads (map_of kvs ''updated_at'') \<and>
         Some (learning_points st) = map_option json_loads (map_of kvs ''learning_points'') \<and>
         Some (team_feedback st) = map_option json_loads (map_of kvs ''team_feedback'') \<and>
         Some (current_milestone_id st) =
           map_option json_loads (map_of kvs ''current_milestone_id'')"
    by blast
qed

text \<open>
  A document that mirrors \<^verbatim>\<open>ProjectState\<close> and holds one milestone: \<^verbatim>\<open>load_state\<close> returns
  a state whose milestone is a \<^verbatim>\<open>Milestone\<close> object, with the values of the document as they
  are. An identifier without a document gives \<^verbatim>\<open>None\<close>.
\<close>

lemma load_state_example_document:
  "files (disk_with example_document) (StateFile ''Y'') = None \<and>
   load_state ''Y'' (disk_with example_document) = Inr None \<and>
   project_document example_document \<and>
   (\<exists>st. load_state ''X'' (disk_with example_document) = Inr (Some st) \<and>
      map status_m (milestones st) = [PStr ''in_progress''] \<and>
      map feedback (milestones st) = [PList []] \<and>
      status st = PStr ''not_started'')"
proof -
  let ?m = "JObj [(''id'', JStr ''milestone_1''), (''description'', JStr ''Add login''),
          (''status'', JStr ''in_progress''), (''assigned_to'', JStr ''CTO''),
          (''created_at'', JStr ''2024-01-01T00:00:00''), (''completed_at'', JNull),
          (''feedback'', JArr [])]"
  let ?kvs = "[(''project_id'', JStr ''X''), (''name'', JStr ''X''), (''requirements'', JStr ''reqs''),
      (''status'', JStr ''not_started''), (''created_at'', JStr ''2024-01-01T00:00:00''),
      (''updated_at'', JStr ''2024-01-01T00:00:00''),
      (''milestones'', JArr [?m]),
      (''learning_points'', JArr []),
      (''team_feedback'', JObj [(''CEO'', JArr []), (''CTO'', JArr []), (''Tester'', JArr []),
                                (''Coder'', JArr [])]),
      (''current_milestone_id'', JStr ''milestone_1'')]"
  have e: "example_document = JObj ?kvs"
    by (simp add: example_document_def)
  have absent: "files (disk_with example_document) (StateFile ''Y'') = None"
    by (simp add: disk_with_def)
  have present: "files (disk_with example_document) (StateFile ''X'') = Some (Complete (JObj ?kvs))"
    by (simp add: disk_with_def e)
  have doc: "project_document (JObj ?kvs)"
    by (simp add: project_document_def milestone_document_def ProjectState_fields_def
        Milestone_fields_def)
  have ms: "map_of ?kvs ''milestones'' = Some (JArr [?m])"
    by simp
  have mi: "Milestone_init (json_loads ?m) =
      Inr \<lparr>id_m = PStr ''milestone_1'', description = PStr ''Add login'',
           status_m = PStr ''in_progress'', assigned_to = PStr ''CTO'',
           created_at_m = PStr ''2024-01-01T00:00:00'', completed_at = PNone,
           feedback = PList []\<rparr>"
    by (simp add: Milestone_init_def Milestone_fields_def dict_update_def)
  from load_state_cases [of "disk_with example_document" "''Y''"] absent
  have 1: "load_state ''Y'' (disk_with example_document) = Inr None"
    by blast
  from load_state_cases [of "disk_with example_document" "''X''" ?kvs "[?m]"]
    present doc ms
  obtain st where st: "load_state ''X'' (disk_with example_document) = Inr (Some st)"
    "map Inr (milestones st) = map (\<lambda>mj. Milestone_init (json_loads mj)) [?m]"
    "Some (status st) = map_option json_loads (map_of ?kvs ''status'')"
    by blast
  from st(2) have "map (Inr :: Milestone \<Rightarrow> error + Milestone) (milestones st) =
      [Inr \<lparr>id_m = PStr ''milestone_1'', description = PStr ''Add login'',
           status_m = PStr ''in_progress'', assigned_to = PStr ''CTO'',
           created_at_m = PStr ''2024-01-01T00:00:00'', completed_at = PNone,
           feedback = PList []\<rparr>]"
    by (simp only: list.map mi)
  then have "milestones st =
      [\<lparr>id_m = PStr ''milestone_1'', description = PStr ''Add login'',
           status_m = PStr ''in_progress'', assigned_to = PStr ''CTO'',
           created_at_m = PStr ''2024-01-01T00:00:00'', completed_at = PNone,
           feedback = PList []\<rparr>]"
    by (auto simp: map_eq_Cons_conv)
  moreover from st(3) have "status st = PStr ''not_started''"
    by simp
  ultimately show ?thesis
    using absent 1 doc st(1) by (simp add: e)
qed

text \<open>
  Claim C6 says that \<^verbatim>\<open>load\<close> returns absence for a project that was never saved and a
  \<^verbatim>\<open>ProjectState\<close> whenever a document exists. Before anything is saved,
  \<^verbatim>\<open>load_state("X")\<close> returns \<^verbatim>\<open>None\<close>. After \<^verbatim>\<open>start_new_project("X", "reqs")\<close> the document
  of the project exists, but it is the truncated one that the failed \<^verbatim>\<open>save_state\<close> left, and
  \<^verbatim>\<open>load_state("X")\<close> raises \<^verbatim>\<open>JSONDecodeError\<close>.
\<close>

theorem load_state_after_start_new_project_raises:
  "load_state ''X'' (empty_disk always_ok) = Inr None \<and>
   files (snd (snd (started always_ok))) (StateFile ''X'') = Some Truncated \<and>
   load_state ''X'' (snd (snd (started always_ok))) = Inl JSONDecodeError"
  by (simp add: started_eq load_state_def empty_disk_def)

end
